theory Spec2Isabelle
  imports Complex_Main "HOL-Library.Log_Nat"
begin

section \<open>The MT5 connector: order execution, normalizer, order flow, webhook emitter\<close>

text \<open>
  A shallow embedding of the Python service under \<open>services/mt5-connector/src\<close>.
  Python ints are \<open>int\<close>, dictionaries are association lists, exceptions are values,
  and the MetaTrader terminal is an explicit state that every call threads through.
  Python floats are reals. The volume normalizer, the volume of a partial close and the
  order-flow metrics are computed in binary64, every operation rounded by \<open>double\<close>
  as the interpreter does. The arithmetic on prices (stop distances) and on clock times
  is exact, and the lot size and the stops of a request, which no arithmetic reaches,
  are the reals that their decimal literals denote.
\<close>

subsection \<open>Python values and exceptions\<close>

text \<open>The exceptions the modelled code can raise, and the outcome of a call.\<close>

text \<open>
  The detail of an \<open>HTTPException\<close>: a text, or the stop-loss message of the
  open-trade endpoint with the value it prints.
\<close>

datatype detail = Text string | Stop_loss_required "real option"

datatype exn =
    TypeError string
  | AttributeError string
  | HTTPException int detail
  | ValidationError string

datatype 'a outcome = Returned 'a | Raised exn

text \<open>
  Python's one-argument \<open>round\<close>: to the nearest integer, ties to the even
  neighbour.
\<close>

definition py_round :: "real \<Rightarrow> int" where
  "py_round x =
     (let f = \<lfloor>x\<rfloor>; d = x - of_int f
      in if d < 1 / 2 then f
         else if 1 / 2 < d then f + 1
         else if even f then f else f + 1)"

text \<open>
  Binary64 floats, as the reals they denote. \<open>binade x\<close> is the exponent \<open>e\<close> with
  \<open>2 ^ e \<le> \<bar>x\<bar> < 2 ^ (e + 1)\<close>, \<open>ulp x\<close> the spacing of the floats of that
  binade (53 significant bits), and \<open>double x\<close> the float nearest to \<open>x\<close>, ties to
  the even significand: the result of every float operation is \<open>double\<close> of the exact
  result, and a decimal literal \<open>0.35\<close> is \<open>double (35 / 100)\<close>. Overflow and
  subnormal numbers are not modelled (magnitudes between \<open>2 ^ -1022\<close> and
  \<open>2 ^ 1024\<close> only).
\<close>

definition binade :: "real \<Rightarrow> int" where
  "binade x =
     (if 1 \<le> \<bar>x\<bar> then int (floorlog 2 (nat \<lfloor>\<bar>x\<bar>\<rfloor>)) - 1
      else - int (floorlog 2 (nat (\<lceil>1 / \<bar>x\<bar>\<rceil> - 1))))"

definition ulp :: "real \<Rightarrow> real" where
  "ulp x = (let e = binade x - 52 in if 0 \<le> e then 2 ^ nat e else 1 / 2 ^ nat (- e))"

definition double :: "real \<Rightarrow> real" where
  "double x = (if x = 0 then 0 else of_int (py_round (x / ulp x)) * ulp x)"

text \<open>
  \<open>round(x, n)\<close> on a float: the exact value of \<open>x\<close> is rounded to \<open>n\<close> decimals,
  ties to even, and the float nearest to that decimal is returned.
\<close>

definition py_round_to :: "real \<Rightarrow> nat \<Rightarrow> real" where
  "py_round_to x n = double (of_int (py_round (x * 10 ^ n)) / 10 ^ n)"

subsection \<open>Broker symbol constraints\<close>

text \<open>
  The fields of the terminal's \<open>symbol_info\<close> struct that the connector reads. The
  volume fields and \<open>trade_stops_level\<close> are read behind \<open>hasattr\<close>, so they
  are optional here (\<open>None\<close>: the attribute is missing).
\<close>

record symbol_info =
  volume_min :: "real option"
  volume_max :: "real option"
  volume_step :: "real option"
  point :: real
  trade_stops_level :: "int option"
  si_filling_mode :: nat

text \<open>
  \<open>info.f if hasattr(info, 'f') and info.f else default\<close>: a missing or falsy
  (zero) field gives the default.
\<close>

definition attr_or :: "real option \<Rightarrow> real \<Rightarrow> real" where
  "attr_or v d = (case v of None \<Rightarrow> d | Some x \<Rightarrow> if x = 0 then d else x)"

definition min_vol_of :: "symbol_info \<Rightarrow> real" where
  "min_vol_of info = attr_or (volume_min info) (double (1 / 100))"

definition max_vol_of :: "symbol_info \<Rightarrow> real" where
  "max_vol_of info = attr_or (volume_max info) 100"

definition step_of :: "symbol_info \<Rightarrow> real" where
  "step_of info = attr_or (volume_step info) (double (1 / 100))"

subsection \<open>Volume normalizer (\<open>MT5Client._normalize_volume\<close>)\<close>

text \<open>The three error messages of \<open>_normalize_volume\<close>, with the values they print.\<close>

datatype volume_error =
    Below_minimum real real string
  | Exceeds_maximum real real string
  | Normalized_below_minimum real real real string

text \<open>
  The function returns the pair \<open>(volume, error_message)\<close>: \<open>(0.0, msg)\<close> on a
  rejection and \<open>(vol, None)\<close> otherwise. The requested volume and the constraints
  are floats; the product with \<open>1.1\<close>, the quotient \<open>vol / step\<close> and the product
  \<open>steps * step\<close> are rounded to floats. The snapped volume is compared with the
  minimum once more, and not with the maximum.
\<close>

definition normalize_volume ::
    "real \<Rightarrow> symbol_info \<Rightarrow> string \<Rightarrow> real \<times> volume_error option" where
  "normalize_volume requested info symbol =
     (let min_vol = min_vol_of info;
          max_vol = max_vol_of info;
          step = step_of info
      in if requested < min_vol
         then (0, Some (Below_minimum requested min_vol symbol))
         else if requested > max_vol \<and> requested > double (max_vol * double (11 / 10))
         then (0, Some (Exceeds_maximum requested max_vol symbol))
         else
           (let vol = (if requested > max_vol then max_vol else requested);
                steps = py_round (double (vol / step));
                vol' = double (of_int steps * step)
            in if vol' < min_vol
               then (0, Some (Normalized_below_minimum requested vol' min_vol symbol))
               else (vol', None)))"

text \<open>
  Three constraint sets used as concrete inputs below: a forex symbol with
  min 0.01, max 50, step 0.01; a symbol with min 0.01, max 0.35, step 0.01; and a symbol
  whose maximum (0.96) is not a multiple of its step (0.1).
\<close>

definition eurusd :: symbol_info where
  "eurusd = \<lparr>volume_min = Some (double (1 / 100)), volume_max = Some 50,
     volume_step = Some (double (1 / 100)), point = 1 / 100000, trade_stops_level = Some 10,
     si_filling_mode = 1\<rparr>"

definition small_max :: symbol_info where
  "small_max = \<lparr>volume_min = Some (double (1 / 100)), volume_max = Some (double (35 / 100)),
     volume_step = Some (double (1 / 100)), point = 1 / 100000, trade_stops_level = Some 10,
     si_filling_mode = 1\<rparr>"

definition odd_max :: symbol_info where
  "odd_max = \<lparr>volume_min = Some (double (1 / 10)), volume_max = Some (double (96 / 100)),
     volume_step = Some (double (1 / 10)), point = 1 / 100000, trade_stops_level = Some 10,
     si_filling_mode = 1\<rparr>"

subsection \<open>Strings\<close>

text \<open>\<open>str.lower()\<close> on ASCII text: the letters A to Z are mapped to a to z.\<close>

definition lower_char :: "char \<Rightarrow> char" where
  "lower_char c =
     (case map_of (zip ''ABCDEFGHIJKLMNOPQRSTUVWXYZ'' ''abcdefghijklmnopqrstuvwxyz'') c of
        None \<Rightarrow> c
      | Some d \<Rightarrow> d)"

definition lower :: "string \<Rightarrow> string" where
  "lower s = map lower_char s"

subsection \<open>Stop-distance normalizer (\<open>MT5Client._adjust_stop_loss_take_profit\<close>)\<close>

text \<open>
  The minimum stop distance as a price: \<open>trade_stops_level\<close> (in points, zero when
  the attribute is missing or falsy) times the point size.
\<close>

definition min_stop_distance_price :: "symbol_info \<Rightarrow> real" where
  "min_stop_distance_price info =
     of_int (case trade_stops_level info of None \<Rightarrow> 0 | Some l \<Rightarrow> if l = 0 then 0 else l)
       * point info"

text \<open>
  The function returns the pair \<open>(adjusted_sl, adjusted_tp)\<close>. Both start as
  \<open>None\<close>; a stop is looked at only when it is present and positive, and every
  direction other than \<open>buy\<close> (after lowercasing) takes the sell branch.
\<close>

definition adjust_stop_loss_take_profit ::
    "symbol_info \<Rightarrow> real \<Rightarrow> real option \<Rightarrow> real option \<Rightarrow> string
       \<Rightarrow> real option \<times> real option" where
  "adjust_stop_loss_take_profit info entry_price requested_sl requested_tp direction =
     (let min_dist = min_stop_distance_price info;
          dir_lower = lower direction;
          adjusted_sl =
            (case requested_sl of
               None \<Rightarrow> None
             | Some rsl \<Rightarrow>
                 if rsl > 0 then
                   (if dir_lower = ''buy'' then
                      (if rsl \<ge> entry_price then None
                       else (let max_sl = entry_price - min_dist
                             in if rsl > max_sl then Some max_sl else Some rsl))
                    else
                      (if rsl \<le> entry_price then None
                       else (let min_sl = entry_price + min_dist
                             in if rsl < min_sl then Some min_sl else Some rsl)))
                 else None);
          adjusted_tp =
            (case requested_tp of
               None \<Rightarrow> None
             | Some rtp \<Rightarrow>
                 if rtp > 0 then
                   (if dir_lower = ''buy'' then
                      (if rtp \<le> entry_price then None
                       else (let min_tp = entry_price + min_dist
                             in if rtp < min_tp then Some min_tp else Some rtp))
                    else
                      (if rtp \<ge> entry_price then None
                       else (let max_tp = entry_price - min_dist
                             in if rtp > max_tp then Some max_tp else Some rtp)))
                 else None)
      in (adjusted_sl, adjusted_tp))"

subsection \<open>Order-flow accumulator (\<open>orderflow_accumulator.py\<close>)\<close>

text \<open>
  \<open>TickData\<close>: one tick. Timestamps are \<open>datetime\<close> values, modelled as seconds
  on the real line; \<open>timedelta(seconds = n)\<close> is then the number \<open>n\<close>.
\<close>

record tick_data =
  td_symbol :: string
  td_bid :: real
  td_ask :: real
  td_volume :: int
  td_time :: real
  td_spread :: real

definition TickData :: "string \<Rightarrow> real \<Rightarrow> real \<Rightarrow> int \<Rightarrow> real \<Rightarrow> tick_data" where
  "TickData symbol bid ask volume time =
     \<lparr>td_symbol = symbol, td_bid = bid, td_ask = ask, td_volume = volume,
      td_time = time, td_spread = ask - bid\<rparr>"

text \<open>
  \<open>OrderFlowAccumulator\<close>: the window length, one buffer (a deque, oldest entry
  first) per symbol, and the large-order multiplier.
\<close>

record accumulator =
  lookback_seconds :: int
  tick_buffers :: "string \<Rightarrow> tick_data list option"
  large_order_multiplier :: int

definition new_accumulator :: "int \<Rightarrow> accumulator" where
  "new_accumulator lookback =
     \<lparr>lookback_seconds = lookback, tick_buffers = (\<lambda>_. None), large_order_multiplier = 20\<rparr>"

text \<open>
  The eviction loop of \<open>add_tick\<close>:
  \<open>while buf and buf[0].time < cutoff_time: buf.popleft()\<close>.
\<close>

fun evict :: "real \<Rightarrow> tick_data list \<Rightarrow> tick_data list" where
  "evict cutoff_time [] = []"
| "evict cutoff_time (t # ts) =
     (if td_time t < cutoff_time then evict cutoff_time ts else t # ts)"

text \<open>
  \<open>add_tick\<close>. The clock \<open>now\<close> is read only when no time is passed. The tick is
  appended first and the buffer is evicted after, against the new tick's own time.
\<close>

definition add_tick ::
    "accumulator \<Rightarrow> real \<Rightarrow> string \<Rightarrow> real \<Rightarrow> real \<Rightarrow> int \<Rightarrow> real option \<Rightarrow> accumulator" where
  "add_tick acc now symbol bid ask volume time_opt =
     (let time = (case time_opt of None \<Rightarrow> now | Some t \<Rightarrow> t);
          buf = (case tick_buffers acc symbol of None \<Rightarrow> [] | Some b \<Rightarrow> b);
          tick = TickData symbol bid ask volume time;
          buf' = buf @ [tick];
          cutoff_time = time - of_int (lookback_seconds acc)
      in acc\<lparr>tick_buffers := (tick_buffers acc)(symbol \<mapsto> evict cutoff_time buf')\<rparr>)"

text \<open>\<open>t.volume or 1\<close>: a zero volume counts as one.\<close>

definition volume_or_1 :: "tick_data \<Rightarrow> real" where
  "volume_or_1 t = (if td_volume t = 0 then 1 else of_int (td_volume t))"

definition mid :: "tick_data \<Rightarrow> real" where
  "mid t = double (double (td_bid t + td_ask t) / 2)"

text \<open>
  The loop over consecutive ticks, \<open>for i in range(1, len(recent_ticks))\<close>, carrying
  \<open>(bid_volume, ask_volume)\<close>; \<open>prev\<close> is \<open>recent_ticks[i - 1]\<close>.
\<close>

fun flow_loop :: "tick_data \<Rightarrow> tick_data list \<Rightarrow> real \<times> real \<Rightarrow> real \<times> real" where
  "flow_loop prev [] (bid_volume, ask_volume) = (bid_volume, ask_volume)"
| "flow_loop prev (cur # rest) (bid_volume, ask_volume) =
     (let tick_volume = volume_or_1 cur
      in if mid cur > mid prev
         then flow_loop cur rest (bid_volume, double (ask_volume + tick_volume))
         else if mid cur < mid prev
         then flow_loop cur rest (double (bid_volume + tick_volume), ask_volume)
         else flow_loop cur rest
                (double (bid_volume + double (tick_volume * (1 / 2))),
                 double (ask_volume + double (tick_volume * (1 / 2)))))"

datatype side = Buy_side | Sell_side

record large_order =
  lo_volume :: real
  lo_side :: side
  lo_price :: real

definition large_order_of :: "tick_data \<Rightarrow> large_order" where
  "large_order_of t =
     (let s = (if td_ask t > td_bid t then Buy_side else Sell_side)
      in \<lparr>lo_volume = double (of_int (td_volume t)), lo_side = s,
          lo_price = (if s = Buy_side then td_ask t else td_bid t)\<rparr>)"

datatype delta_sign = buying_pressure | selling_pressure | neutral

text \<open>
  A printed timestamp: \<open>t.isoformat()\<close>, or \<open>t.isoformat() + "Z"\<close>, of the clock
  value \<open>t\<close>.
\<close>

datatype stamp = Iso real | Iso_Z real

text \<open>The dictionary that \<open>compute_order_flow\<close> returns.\<close>

record order_flow =
  of_symbol :: string
  of_timestamp :: stamp
  of_bid_volume :: real
  of_ask_volume :: real
  of_delta :: real
  of_delta_sign :: delta_sign
  of_imbalance_buy_pct :: real
  of_imbalance_sell_pct :: real
  of_large_orders :: "large_order list"
  of_tick_count :: nat

text \<open>The ticks of a buffer that the window filter keeps: \<open>t.time >= cutoff_time\<close>.\<close>

definition recent_ticks :: "real \<Rightarrow> tick_data list \<Rightarrow> tick_data list" where
  "recent_ticks cutoff_time ticks = filter (\<lambda>t. td_time t \<ge> cutoff_time) ticks"

text \<open>\<open>window_seconds or self.lookback_seconds\<close>.\<close>

definition window_of :: "accumulator \<Rightarrow> int option \<Rightarrow> int" where
  "window_of acc window_seconds =
     (case window_seconds of
        None \<Rightarrow> lookback_seconds acc
      | Some w \<Rightarrow> if w = 0 then lookback_seconds acc else w)"

text \<open>The metrics of a non-empty list of recent ticks (lines 80 to 162).\<close>

definition metrics :: "accumulator \<Rightarrow> string \<Rightarrow> real \<Rightarrow> tick_data list \<Rightarrow> order_flow" where
  "metrics acc symbol now recent =
     (let (bv0, av0) = flow_loop (hd recent) (tl recent) (0, 0);
          avg_volume = double (sum_list (map volume_or_1 recent) / of_nat (length recent));
          (bid_volume, ask_volume) =
            (if bv0 = 0 \<and> av0 = 0
             then (double (avg_volume * (1 / 2)), double (avg_volume * (1 / 2)))
             else (bv0, av0));
          total_volume = double (bid_volume + ask_volume);
          delta = double (ask_volume - bid_volume);
          imbalance_buy_pct =
            (if total_volume > 0 then double (double (ask_volume / total_volume) * 100) else 50);
          imbalance_sell_pct =
            (if total_volume > 0 then double (double (bid_volume / total_volume) * 100) else 50);
          sign = (if delta > 0 then buying_pressure
                  else if delta < 0 then selling_pressure else neutral);
          large_order_threshold = double (avg_volume * of_int (large_order_multiplier acc));
          large_orders =
            map large_order_of
              (filter (\<lambda>t. td_volume t \<noteq> 0 \<and> of_int (td_volume t) \<ge> large_order_threshold)
                 recent)
      in \<lparr>of_symbol = symbol, of_timestamp = Iso now,
          of_bid_volume = py_round_to bid_volume 2,
          of_ask_volume = py_round_to ask_volume 2,
          of_delta = py_round_to delta 2,
          of_delta_sign = sign,
          of_imbalance_buy_pct = py_round_to imbalance_buy_pct 1,
          of_imbalance_sell_pct = py_round_to imbalance_sell_pct 1,
          of_large_orders = large_orders,
          of_tick_count = length recent\<rparr>)"

text \<open>
  \<open>compute_order_flow\<close>; \<open>None\<close> is the insufficient-data result. The count of five
  is checked on the whole buffer, before the window filter; after the filter only
  emptiness is checked. \<open>now\<close> is the clock read by \<open>datetime.now()\<close>.
\<close>

definition compute_order_flow ::
    "accumulator \<Rightarrow> real \<Rightarrow> string \<Rightarrow> int option \<Rightarrow> order_flow option" where
  "compute_order_flow acc now symbol window_seconds =
     (case tick_buffers acc symbol of
        None \<Rightarrow> None
      | Some ticks \<Rightarrow>
          if length ticks < 5 then None
          else
            (let cutoff_time = now - of_int (window_of acc window_seconds);
                 recent = recent_ticks cutoff_time ticks
             in if length recent = 0 then None
                else Some (metrics acc symbol now recent)))"

subsection \<open>The order-flow endpoint (\<open>main.get_order_flow\<close>)\<close>

text \<open>The terminal's tick struct; \<open>volume\<close> is read behind \<open>hasattr\<close>.\<close>

record mt5_tick =
  tk_bid :: real
  tk_ask :: real
  tk_volume :: "int option"
  tk_time :: real

text \<open>
  The JSON object the endpoint answers with: the dictionary of
  \<open>compute_order_flow\<close> as it is, or the neutral one, which has no \<open>tick_count\<close>.
\<close>

record flow_response =
  fr_symbol :: string
  fr_timestamp :: stamp
  fr_bid_volume :: real
  fr_ask_volume :: real
  fr_delta :: real
  fr_delta_sign :: delta_sign
  fr_imbalance_buy_pct :: real
  fr_imbalance_sell_pct :: real
  fr_large_orders :: "large_order list"
  fr_tick_count :: "nat option"


definition neutral_response :: "string \<Rightarrow> real \<Rightarrow> flow_response" where
  "neutral_response resolved_symbol utcnow =
     \<lparr>fr_symbol = resolved_symbol, fr_timestamp = Iso_Z utcnow,
      fr_bid_volume = 0, fr_ask_volume = 0, fr_delta = 0, fr_delta_sign = neutral,
      fr_imbalance_buy_pct = 50, fr_imbalance_sell_pct = 50,
      fr_large_orders = [], fr_tick_count = None\<rparr>"

text \<open>
  What the endpoint reads from its surroundings: whether the global client is set,
  the results of \<open>ensure_initialized\<close> and \<open>validate_symbol\<close>, the global
  accumulator, the terminal's current tick, the two clocks, and
  \<open>datetime.fromtimestamp\<close>.
\<close>

record flow_env =
  fe_client :: bool
  fe_init :: "bool \<times> string"
  fe_symbol :: "bool \<times> string \<times> string"
  fe_accumulator :: "accumulator option"
  fe_tick :: "mt5_tick option"
  fe_now :: real
  fe_utcnow :: real
  fe_fromtimestamp :: "real \<Rightarrow> real"

text \<open>The accumulator after the endpoint's attempt to add a fresh tick.\<close>

definition after_fetch :: "flow_env \<Rightarrow> accumulator \<Rightarrow> string \<Rightarrow> accumulator" where
  "after_fetch env acc resolved_symbol =
     (case fe_tick env of
        None \<Rightarrow> acc
      | Some tick \<Rightarrow>
          (let volume = (case tk_volume tick of None \<Rightarrow> 1 | Some v \<Rightarrow> if v = 0 then 1 else v);
               tick_time = (if tk_time tick \<noteq> 0 then fe_fromtimestamp env (tk_time tick)
                            else fe_utcnow env)
           in add_tick acc (fe_now env) resolved_symbol (tk_bid tick) (tk_ask tick) volume
                (Some tick_time)))"


text \<open>Inserting a list of ticks, given as (bid, ask, volume, time), one after the other.\<close>

fun add_ticks ::
    "accumulator \<Rightarrow> string \<Rightarrow> (real \<times> real \<times> int \<times> real) list \<Rightarrow> accumulator" where
  "add_ticks acc symbol [] = acc"
| "add_ticks acc symbol ((bid, ask, volume, time) # rest) =
     add_ticks (add_tick acc time symbol bid ask volume (Some time)) symbol rest"

text \<open>The buffer of a symbol, empty when the symbol has none.\<close>

definition buffer_of :: "accumulator \<Rightarrow> string \<Rightarrow> tick_data list" where
  "buffer_of acc symbol = (case tick_buffers acc symbol of None \<Rightarrow> [] | Some b \<Rightarrow> b)"

text \<open>The tick that \<open>add_ticks\<close> builds from an input tuple.\<close>

definition tick_of :: "string \<Rightarrow> real \<times> real \<times> int \<times> real \<Rightarrow> tick_data" where
  "tick_of symbol x = (case x of (bid, ask, volume, time) \<Rightarrow> TickData symbol bid ask volume time)"

text \<open>
  Concrete inputs used below: five ticks ten seconds apart, and seven ticks of which
  five are stamped later than the clock value 100 at which the flow is computed.
\<close>

definition five_ticks :: "(real \<times> real \<times> int \<times> real) list" where
  "five_ticks = [(1, 2, 1, 0), (1, 2, 1, 10), (1, 2, 1, 20), (1, 2, 1, 30), (1, 2, 1, 40)]"

definition late_ticks :: "(real \<times> real \<times> int \<times> real) list" where
  "late_ticks = [(1, 2, 1, 0), (1, 2, 1, 50), (1, 2, 1, 110), (1, 2, 1, 120),
                 (1, 2, 1, 130), (1, 2, 1, 140), (1, 2, 1, 150)]"

definition three_ticks :: "(real \<times> real \<times> int \<times> real) list" where
  "three_ticks = [(1, 2, 1, 20), (1, 2, 1, 30), (1, 2, 1, 40)]"

definition quiet_env :: "accumulator \<Rightarrow> flow_env" where
  "quiet_env acc =
     \<lparr>fe_client = True, fe_init = (True, ''Already connected''),
      fe_symbol = (True, ''EURUSD'', ''Symbol valid''), fe_accumulator = Some acc,
      fe_tick = None, fe_now = 75, fe_utcnow = 75, fe_fromtimestamp = (\<lambda>t. t)\<rparr>"

subsection \<open>Webhook emitter (\<open>OrderEventEmitter._emit_event\<close>)\<close>

text \<open>
  What one \<open>session.post\<close> does: it answers with a status and a body, or raises
  \<open>asyncio.TimeoutError\<close>, or raises another exception.
\<close>

datatype post_result = Status int string | Timeout | Transport_error string

record emitter =
  em_webhook_url :: "string option"
  em_enabled :: bool

datatype log_entry =
    Debug_emitted string
  | Warning_status int string nat nat
  | Warning_timeout nat nat
  | Error_emitting string nat nat
  | Error_failed nat string

text \<open>
  The effects of one call: the number of POSTs made, the waits (in seconds) passed to
  \<open>asyncio.sleep\<close> in order, and the log lines.
\<close>

record emit_trace =
  posts :: nat
  sleeps :: "nat list"
  logged :: "log_entry list"

definition no_trace :: emit_trace where
  "no_trace = \<lparr>posts = 0, sleeps = [], logged = []\<rparr>"

text \<open>
  \<open>if attempt < retry_count - 1: await asyncio.sleep(2 ** attempt)\<close>, after the log
  line of a failed attempt.
\<close>

definition failed_attempt :: "nat \<Rightarrow> nat \<Rightarrow> log_entry \<Rightarrow> emit_trace \<Rightarrow> emit_trace" where
  "failed_attempt retry_count attempt entry tr =
     tr\<lparr>posts := posts tr + 1,
        logged := logged tr @ [entry],
        sleeps := (if int attempt < int retry_count - 1 then sleeps tr @ [2 ^ attempt]
                   else sleeps tr)\<rparr>"

text \<open>
  The loop \<open>for attempt in range(retry_count)\<close>, over the attempts still to make;
  \<open>server\<close> gives the result of the POST of each attempt.
\<close>

fun emit_attempts ::
    "(nat \<Rightarrow> post_result) \<Rightarrow> string \<Rightarrow> nat \<Rightarrow> nat list \<Rightarrow> emit_trace \<Rightarrow> bool \<times> emit_trace" where
  "emit_attempts server event_type retry_count [] tr =
     (False, tr\<lparr>logged := logged tr @ [Error_failed retry_count event_type]\<rparr>)"
| "emit_attempts server event_type retry_count (attempt # rest) tr =
     (case server attempt of
        Status code text \<Rightarrow>
          if code = 200
          then (True, tr\<lparr>posts := posts tr + 1,
                         logged := logged tr @ [Debug_emitted event_type]\<rparr>)
          else emit_attempts server event_type retry_count rest
                 (failed_attempt retry_count attempt
                    (Warning_status code text (attempt + 1) retry_count) tr)
      | Timeout \<Rightarrow>
          emit_attempts server event_type retry_count rest
            (failed_attempt retry_count attempt (Warning_timeout (attempt + 1) retry_count) tr)
      | Transport_error e \<Rightarrow>
          emit_attempts server event_type retry_count rest
            (failed_attempt retry_count attempt (Error_emitting e (attempt + 1) retry_count) tr))"

text \<open>
  \<open>_emit_event\<close>: nothing is sent when the emitter is disabled or has no URL. The
  default \<open>retry_count\<close> is 3.
\<close>

definition emit_event ::
    "emitter \<Rightarrow> (nat \<Rightarrow> post_result) \<Rightarrow> string \<Rightarrow> nat \<Rightarrow> bool \<times> emit_trace" where
  "emit_event em server event_type retry_count =
     (if \<not> em_enabled em then (False, no_trace)
      else if em_webhook_url em = None \<or> em_webhook_url em = Some [] then (False, no_trace)
      else emit_attempts server event_type retry_count [0..<retry_count] no_trace)"

text \<open>A POST fails when it raises or answers with a status other than 200.\<close>

definition post_failed :: "post_result \<Rightarrow> bool" where
  "post_failed r = (case r of Status code text \<Rightarrow> code \<noteq> 200 | Timeout \<Rightarrow> True
                    | Transport_error e \<Rightarrow> True)"

definition hook :: emitter where
  "hook = \<lparr>em_webhook_url = Some ''http://localhost:3020/api/v1/order-events'',
            em_enabled = True\<rparr>"

subsection \<open>The open-trade request model (\<open>models.OpenTradeRequest\<close>)\<close>

definition upper_char :: "char \<Rightarrow> char" where
  "upper_char c =
     (case map_of (zip ''abcdefghijklmnopqrstuvwxyz'' ''ABCDEFGHIJKLMNOPQRSTUVWXYZ'') c of
        None \<Rightarrow> c
      | Some d \<Rightarrow> d)"

definition upper :: "string \<Rightarrow> string" where
  "upper s = map upper_char s"

text \<open>\<open>needle in haystack\<close> on strings.\<close>

fun starts_with :: "string \<Rightarrow> string \<Rightarrow> bool" where
  "starts_with [] hay = True"
| "starts_with (x # xs) [] = False"
| "starts_with (x # xs) (y # ys) = (x = y \<and> starts_with xs ys)"

fun contains :: "string \<Rightarrow> string \<Rightarrow> bool" where
  "contains needle [] = (needle = [])"
| "contains needle (c # cs) = (starts_with needle (c # cs) \<or> contains needle cs)"

text \<open>
  The fields of the request body, after type coercion. The required fields are
  \<open>symbol\<close>, \<open>direction\<close>, \<open>order_kind\<close> and \<open>lot_size\<close>; a body without
  them never reaches the validators. The same record holds the validated model.
\<close>

record open_trade_request =
  rq_symbol :: string
  rq_direction :: string
  rq_order_kind :: string
  rq_lot_size :: real
  rq_entry_price :: "real option"
  rq_stop_loss :: "real option"
  rq_take_profit :: "real option"
  rq_strategy :: string
  rq_strategy_id :: "string option"
  rq_stop_loss_price :: "real option"
  rq_take_profit_price :: "real option"
  rq_entry_type :: "string option"

text \<open>
  Field validation and the \<open>validate_fields\<close> model validator. \<open>order_kind\<close> is
  a required \<open>Literal\<close>, so the validator's branch for a missing \<open>order_kind\<close> is
  never taken and is left out. A failed validation raises a \<open>ValidationError\<close>,
  which the framework answers with status 422.
\<close>

definition validate_fields :: "open_trade_request \<Rightarrow> open_trade_request outcome" where
  "validate_fields r =
     (if rq_order_kind r \<notin> {''market'', ''limit'', ''stop''}
      then Raised (ValidationError ''order_kind'')
      else if rq_lot_size r \<le> 0
      then Raised (ValidationError ''lot_size must be greater than 0'')
      else if rq_order_kind r \<in> {''limit'', ''stop''}
              \<and> (case rq_entry_price r of None \<Rightarrow> True | Some p \<Rightarrow> p \<le> 0)
      then Raised (ValidationError (''entry_price is required for '' @ rq_order_kind r @ '' orders''))
      else
        (let sl = (case rq_stop_loss r of None \<Rightarrow> rq_stop_loss_price r | Some s \<Rightarrow> Some s);
             tp = (case rq_take_profit r of None \<Rightarrow> rq_take_profit_price r | Some t \<Rightarrow> Some t);
             st = (if rq_strategy r = [] then (case rq_strategy_id r of None \<Rightarrow> [] | Some i \<Rightarrow> i)
                   else rq_strategy r);
             st' = (if st = [] then ''low'' else st)
         in Returned (r\<lparr>rq_symbol := upper (rq_symbol r), rq_direction := lower (rq_direction r),
                          rq_stop_loss := sl, rq_take_profit := tp, rq_strategy := st'\<rparr>)))"

subsection \<open>The open-trade endpoint (\<open>main.open_trade\<close>)\<close>

text \<open>
  The dictionary handed to \<open>mt5_client.open_trade\<close>, with the keys that the
  client reads. A key read with \<open>request.get\<close> is optional. For the prices, read
  without a default, \<open>None\<close> is a missing key or a key that holds \<open>None\<close>. For
  \<open>order_kind\<close> and \<open>strategy\<close>, read with a default, \<open>None\<close> is a missing key
  only: a dictionary that holds \<open>None\<close> under one of these two keys is not a value of
  this record (the endpoint always passes strings there). The endpoint's dictionary has
  no \<open>stop_loss_price\<close> and no \<open>take_profit_price\<close>.
\<close>

record request_dict =
  rd_symbol :: string
  rd_direction :: string
  rd_order_kind :: "string option"
  rd_entry_price :: "real option"
  rd_lot_size :: real
  rd_stop_loss :: "real option"
  rd_take_profit :: "real option"
  rd_stop_loss_price :: "real option"
  rd_take_profit_price :: "real option"
  rd_strategy :: "string option"

text \<open>
  The client's result as the endpoint reads it: the keys \<open>success\<close>, \<open>ticket\<close>,
  \<open>price\<close>, \<open>error\<close> and \<open>error_message\<close> (\<open>None\<close>: the key is missing).
\<close>

record client_result =
  cr_success :: bool
  cr_ticket :: "int option"
  cr_price :: "real option"
  cr_error :: "string option"
  cr_error_message :: "string option"

record trade_response =
  tr_success :: bool
  tr_ticket :: "int option"
  tr_error :: "string option"
  tr_mt5_ticket :: "int option"

definition TradeResponse :: "bool \<Rightarrow> int option \<Rightarrow> trade_response" where
  "TradeResponse ok ticket =
     \<lparr>tr_success = ok, tr_ticket = ticket, tr_error = None,
      tr_mt5_ticket = (case ticket of None \<Rightarrow> None | Some t \<Rightarrow> if t = 0 then None else Some t)\<rparr>"

text \<open>The emitter tasks the endpoint starts with \<open>asyncio.create_task\<close>.\<close>

datatype task =
    Emit_order_sent "int option" string string real "real option" string
  | Emit_position_opened "int option" string string real "real option" "real option" "real option"

text \<open>
  One run of the endpoint: what it returns or raises, the calls it made to the order
  executor \<open>mt5_client.open_trade\<close>, and the tasks it started.
\<close>

record endpoint_run =
  er_outcome :: "trade_response outcome"
  er_executor_calls :: "request_dict list"
  er_tasks :: "task list"

text \<open>
  The endpoint on a validated request. \<open>client\<close> is the global \<open>mt5_client\<close>
  (\<open>None\<close> until startup has set it), given as the executor it provides;
  \<open>emitter_enabled\<close> says whether the global emitter is set and enabled.
\<close>

definition open_trade_endpoint ::
    "(request_dict \<Rightarrow> client_result) option \<Rightarrow> bool \<Rightarrow> open_trade_request \<Rightarrow> endpoint_run" where
  "open_trade_endpoint client emitter_enabled request =
     (case client of
        None \<Rightarrow>
          \<lparr>er_outcome = Raised (HTTPException 500 (Text ''MT5 client not initialized'')),
           er_executor_calls = [], er_tasks = []\<rparr>
      | Some executor \<Rightarrow>
          if (case rq_stop_loss request of None \<Rightarrow> True | Some s \<Rightarrow> s \<le> 0)
          then \<lparr>er_outcome = Raised (HTTPException 400 (Stop_loss_required (rq_stop_loss request))),
                er_executor_calls = [], er_tasks = []\<rparr>
          else
            (let d = \<lparr>rd_symbol = rq_symbol request,
                       rd_direction = lower (rq_direction request),
                       rd_order_kind = Some (rq_order_kind request),
                       rd_entry_price = rq_entry_price request,
                       rd_lot_size = rq_lot_size request,
                       rd_stop_loss = rq_stop_loss request,
                       rd_take_profit = rq_take_profit request,
                       rd_stop_loss_price = None,
                       rd_take_profit_price = None,
                       rd_strategy = Some (rq_strategy request)\<rparr>;
                 result = executor d
             in if cr_success result
                then
                  (let ticket = cr_ticket result;
                       price_or_entry =
                         (case cr_price result of
                            None \<Rightarrow> rq_entry_price request
                          | Some p \<Rightarrow> if p = 0 then rq_entry_price request else Some p);
                       started =
                         (if emitter_enabled
                          then [Emit_order_sent ticket (rq_symbol request)
                                  (lower (rq_direction request)) (rq_lot_size request)
                                  price_or_entry (rq_order_kind request)]
                               @ (if rq_order_kind request = ''market''
                                  then [Emit_position_opened ticket (rq_symbol request)
                                          (lower (rq_direction request)) (rq_lot_size request)
                                          (cr_price result) (rq_stop_loss request)
                                          (rq_take_profit request)]
                                  else [])
                          else [])
                   in \<lparr>er_outcome = Returned (TradeResponse True ticket),
                        er_executor_calls = [d], er_tasks = started\<rparr>)
                else
                  (let error_msg =
                         (case cr_error result of
                            Some e \<Rightarrow> if e \<noteq> [] then e
                                      else (case cr_error_message result of
                                              None \<Rightarrow> ''Unknown error'' | Some m \<Rightarrow> m)
                          | None \<Rightarrow> (case cr_error_message result of
                                       None \<Rightarrow> ''Unknown error'' | Some m \<Rightarrow> m));
                       status_code =
                         (if contains ''connection'' (lower error_msg)
                             \<or> contains ''initialize'' (lower error_msg)
                          then 500 else 400)
                   in \<lparr>er_outcome = Raised (HTTPException status_code (Text error_msg)),
                        er_executor_calls = [d], er_tasks = []\<rparr>)))"

text \<open>The public route: the body is validated, then the endpoint runs.\<close>

definition post_trades_open ::
    "(request_dict \<Rightarrow> client_result) option \<Rightarrow> bool \<Rightarrow> open_trade_request \<Rightarrow> endpoint_run" where
  "post_trades_open client emitter_enabled body =
     (case validate_fields body of
        Raised e \<Rightarrow> \<lparr>er_outcome = Raised e, er_executor_calls = [], er_tasks = []\<rparr>
      | Returned request \<Rightarrow> open_trade_endpoint client emitter_enabled request)"

text \<open>The stop-loss of a body after the alternative field has been mapped.\<close>

definition mapped_stop_loss :: "open_trade_request \<Rightarrow> real option" where
  "mapped_stop_loss body =
     (case rq_stop_loss body of None \<Rightarrow> rq_stop_loss_price body | Some s \<Rightarrow> Some s)"

definition no_stop_loss :: "open_trade_request \<Rightarrow> bool" where
  "no_stop_loss body = (case mapped_stop_loss body of None \<Rightarrow> True | Some s \<Rightarrow> s \<le> 0)"

text \<open>
  Concrete inputs: a market buy of 0.10 lots without any stop, a buy limit whose
  alternative stop-loss field is zero, and an executor that fills every order.
\<close>

definition naked_body :: open_trade_request where
  "naked_body =
     \<lparr>rq_symbol = ''eurusd'', rq_direction = ''BUY'', rq_order_kind = ''market'',
      rq_lot_size = 1 / 10, rq_entry_price = None, rq_stop_loss = None,
      rq_take_profit = None, rq_strategy = ''low'', rq_strategy_id = None,
      rq_stop_loss_price = None, rq_take_profit_price = None, rq_entry_type = None\<rparr>"

definition zero_stop_limit_body :: open_trade_request where
  "zero_stop_limit_body =
     \<lparr>rq_symbol = ''eurusd'', rq_direction = ''buy'', rq_order_kind = ''limit'',
      rq_lot_size = 1 / 10, rq_entry_price = Some (109 / 100), rq_stop_loss = None,
      rq_take_profit = None, rq_strategy = ''low'', rq_strategy_id = None,
      rq_stop_loss_price = Some 0, rq_take_profit_price = None, rq_entry_type = None\<rparr>"

definition always_fills :: "request_dict \<Rightarrow> client_result" where
  "always_fills d =
     \<lparr>cr_success = True, cr_ticket = Some 1001, cr_price = Some (11 / 10),
      cr_error = None, cr_error_message = None\<rparr>"

subsection \<open>The terminal (\<open>MetaTrader5\<close> package) as seen by the client\<close>

unbundle bit_operations_syntax

text \<open>
  The package's enumerations are compared for equality only, so they are datatypes.
  Its numeric constants that the client computes with are parameters: the three
  order-filling constants (used as bit masks and as dictionary keys) and the return code
  of a done request.
\<close>

datatype action = TRADE_ACTION_DEAL | TRADE_ACTION_PENDING | TRADE_ACTION_SLTP

datatype order_type =
    ORDER_TYPE_BUY | ORDER_TYPE_SELL
  | ORDER_TYPE_BUY_LIMIT | ORDER_TYPE_SELL_LIMIT
  | ORDER_TYPE_BUY_STOP | ORDER_TYPE_SELL_STOP

record mt5_lib =
  ORDER_FILLING_RETURN :: nat
  ORDER_FILLING_IOC :: nat
  ORDER_FILLING_FOK :: nat
  TRADE_RETCODE_DONE :: int

text \<open>The values in the released package.\<close>

definition mt5_package :: mt5_lib where
  "mt5_package = \<lparr>ORDER_FILLING_RETURN = 2, ORDER_FILLING_IOC = 1, ORDER_FILLING_FOK = 0,
                    TRADE_RETCODE_DONE = 10009\<rparr>"

text \<open>
  The volume of a request: a number, or the pair that \<open>_normalize_volume\<close> returns
  where the caller does not unpack it.
\<close>

datatype volume_value = Volume real | Volume_pair real "volume_error option"

datatype comment = Comment_strategy string | Comment_partial_close real | Comment_close

text \<open>
  The request dictionary of \<open>order_send\<close>; the keys that only some requests have
  are optional.
\<close>

record trade_request =
  tq_action :: action
  tq_symbol :: string
  tq_volume :: volume_value
  tq_type :: order_type
  tq_price :: real
  tq_sl :: "real option"
  tq_tp :: "real option"
  tq_position :: "int option"
  tq_magic :: int
  tq_comment :: comment
  tq_deviation :: "int option"
  tq_type_filling :: "nat option"

record order_result =
  or_retcode :: int
  or_order :: int
  or_comment :: string

record position =
  ps_symbol :: string
  ps_type :: order_type
  ps_volume :: real
  ps_price_open :: real
  ps_sl :: real
  ps_tp :: real

text \<open>
  The log lines of \<open>log_trade_success\<close> for an opened trade: ticket, the stops
  sent and the \<open>retry_without_stops\<close> flag.
\<close>

record success_log =
  sl_ticket :: int
  sl_stop_loss :: real
  sl_take_profit :: real
  sl_retry_without_stops :: bool

text \<open>
  The state that a client call runs against. The results of \<open>ensure_initialized\<close>
  and \<open>validate_symbol\<close> and the terminal's tables are read from it;
  \<open>t_replies\<close> holds the results of the coming \<open>order_send\<close> calls in order
  (\<open>None\<close>: the call returns \<open>None\<close>; so it does when the list is used up), and
  \<open>t_sent\<close> collects the requests sent.
\<close>

record terminal =
  t_initialized :: "bool \<times> string"
  t_valid_symbol :: "string \<Rightarrow> bool \<times> string \<times> string"
  t_tick :: "string \<Rightarrow> mt5_tick option"
  t_info :: "string \<Rightarrow> symbol_info option"
  t_positions :: "int \<Rightarrow> position list option"
  t_last_error :: "int \<times> string"
  t_replies :: "order_result option list"
  t_sent :: "trade_request list"
  t_success_log :: "success_log list"

definition order_send :: "terminal \<Rightarrow> trade_request \<Rightarrow> order_result option \<times> terminal" where
  "order_send term req =
     (case t_replies term of
        [] \<Rightarrow> (None, term\<lparr>t_sent := t_sent term @ [req]\<rparr>)
      | r # rs \<Rightarrow> (r, term\<lparr>t_replies := rs, t_sent := t_sent term @ [req]\<rparr>))"

subsection \<open>Result dictionaries of the client\<close>

text \<open>
  A formatted string is kept as the list of its parts: literal text and the values
  printed into it.
\<close>

datatype part = Str string | Dec int | Num real | Exn exn | Vol volume_error | Unset

type_synonym fstring = "part list"

datatype pyval =
    PNone
  | PBool bool
  | PInt int
  | PReal real
  | PStr string
  | PText fstring
  | PVolume volume_value
  | PInfo symbol_info
  | PDict "(string \<times> pyval) list"

type_synonym dict = "(string \<times> pyval) list"

text \<open>\<open>_make_error_response\<close> and \<open>_make_success_response\<close>.\<close>

definition make_error_response ::
    "int \<Rightarrow> fstring \<Rightarrow> pyval \<Rightarrow> pyval \<Rightarrow> pyval \<Rightarrow> pyval \<Rightarrow> dict" where
  "make_error_response error_code error_message symbol direction order_kind volume =
     [(''success'', PBool False),
      (''error_code'', PInt error_code),
      (''error_message'', PText error_message),
      (''context'', PDict [(''symbol'', symbol), (''direction'', direction),
                           (''order_kind'', order_kind), (''volume'', volume)])]"

definition make_success_response ::
    "int \<Rightarrow> string \<Rightarrow> volume_value \<Rightarrow> real \<Rightarrow> string \<Rightarrow> string \<Rightarrow> dict" where
  "make_success_response ticket symbol volume price direction order_kind =
     [(''success'', PBool True),
      (''ticket'', PInt ticket),
      (''symbol'', PStr symbol),
      (''volume'', PVolume volume),
      (''price'', PReal price),
      (''direction'', PStr direction),
      (''order_kind'', PStr order_kind)]"

text \<open>The plain failure dictionaries \<open>{'success': False, 'error': ...}\<close>.\<close>

definition failure :: "fstring \<Rightarrow> dict" where
  "failure msg = [(''success'', PBool False), (''error'', PText msg)]"

definition failure_details :: "fstring \<Rightarrow> dict \<Rightarrow> dict" where
  "failure_details msg details =
     [(''success'', PBool False), (''error'', PText msg), (''details'', PDict details)]"

text \<open>\<open>result._asdict()\<close>, for the fields modelled.\<close>

definition asdict :: "order_result \<Rightarrow> dict" where
  "asdict r = [(''retcode'', PInt (or_retcode r)), (''order'', PInt (or_order r)),
               (''comment'', PStr (or_comment r))]"

text \<open>\<open>x or 'Unknown error'\<close> on a comment.\<close>

definition comment_or :: "string \<Rightarrow> string \<Rightarrow> string" where
  "comment_or c d = (if c = [] then d else c)"

text \<open>\<open>a or b\<close> on optional numbers: \<open>None\<close> and zero are falsy.\<close>

definition py_or :: "real option \<Rightarrow> real option \<Rightarrow> real option" where
  "py_or a b = (case a of None \<Rightarrow> b | Some x \<Rightarrow> if x = 0 then b else Some x)"

subsection \<open>Calling \<open>_normalize_volume\<close>\<close>

text \<open>
  The method is declared as \<open>_normalize_volume(self, requested, symbol_info, symbol)\<close>:
  three positional parameters after \<open>self\<close>, none with a default. A call binds its
  positional arguments to them and raises \<open>TypeError\<close> when one is left unbound or
  one is left over.
\<close>

definition call_normalize_volume :: "pyval list \<Rightarrow> (real \<times> volume_error option) outcome" where
  "call_normalize_volume args =
     (case args of
        [PReal requested, PInfo info, PStr symbol] \<Rightarrow>
          Returned (normalize_volume requested info symbol)
      | _ \<Rightarrow>
          if length args < 3
          then Raised (TypeError ''_normalize_volume() missing required positional argument'')
          else if length args > 3
          then Raised (TypeError ''_normalize_volume() takes 4 positional arguments'')
          else Raised (TypeError ''unsupported operand type''))"

subsection \<open>Filling modes (\<open>MT5Client._get_filling_modes\<close>)\<close>

definition all_filling_modes :: "mt5_lib \<Rightarrow> nat list" where
  "all_filling_modes lib =
     [ORDER_FILLING_RETURN lib, ORDER_FILLING_IOC lib, ORDER_FILLING_FOK lib]"

definition get_filling_modes :: "mt5_lib \<Rightarrow> symbol_info option \<Rightarrow> nat list" where
  "get_filling_modes lib symbol_info =
     (case symbol_info of
        None \<Rightarrow> all_filling_modes lib
      | Some info \<Rightarrow>
          (let filling_modes = si_filling_mode info;
               modes_to_try =
                 (if filling_modes AND ORDER_FILLING_RETURN lib \<noteq> 0
                  then [ORDER_FILLING_RETURN lib] else [])
                 @ (if filling_modes AND ORDER_FILLING_IOC lib \<noteq> 0
                    then [ORDER_FILLING_IOC lib] else [])
                 @ (if filling_modes AND ORDER_FILLING_FOK lib \<noteq> 0
                    then [ORDER_FILLING_FOK lib] else [])
           in if modes_to_try = [] then all_filling_modes lib else modes_to_try))"

subsection \<open>Order submission of \<open>MT5Client.open_trade\<close> (lines 616 to 969)\<close>

text \<open>
  What the submission loops read and never change: the resolved symbol, the order, its
  action and type, the entry price, the volume (\<open>lot_size\<close> and
  \<open>normalized_volume\<close> hold the same value) and the filling modes to try.
\<close>

record order_ctx =
  cx_symbol :: string
  cx_actual_symbol :: string
  cx_direction :: string
  cx_order_kind :: string
  cx_action :: action
  cx_order_type :: order_type
  cx_entry_price_used :: real
  cx_lot_size :: volume_value
  cx_normalized_volume :: volume_value
  cx_original_volume :: real
  cx_strategy :: string
  cx_filling_modes_to_try :: "nat list"

text \<open>
  The variables the loops update. \<open>ss_tried_modes\<close> holds the filling modes tried;
  the code keeps them as strings \<open>NAME(mode)\<close> and reads the number back from the
  string, which gives the mode again. \<open>ss_result\<close> is the last value of
  \<open>result\<close> (\<open>None\<close>: unassigned or \<open>None\<close>).
\<close>

record send_state =
  ss_adjusted_sl :: "real option"
  ss_adjusted_tp :: "real option"
  ss_retry_without_stops :: bool
  ss_last_error :: "fstring option"
  ss_tried_modes :: "nat list"
  ss_has_tried_fallback :: bool
  ss_result :: "order_result option"

text \<open>The name printed for a filling mode: \<open>{1: "RETURN", 2: "IOC", 4: "FOK"}\<close>.\<close>

definition mode_name :: "nat \<Rightarrow> fstring" where
  "mode_name m =
     (if m = 1 then [Str ''RETURN''] else if m = 2 then [Str ''IOC'']
      else if m = 4 then [Str ''FOK'']
      else [Str ''UNKNOWN('', Dec (int m), Str '')''])"

fun join_modes :: "nat list \<Rightarrow> fstring" where
  "join_modes [] = []"
| "join_modes [m] = mode_name m @ [Str ''('', Dec (int m), Str '')'']"
| "join_modes (m # ms) = mode_name m @ [Str ''('', Dec (int m), Str ''), ''] @ join_modes ms"

text \<open>How one pass through the body of the \<open>while\<close> loop ends.\<close>

datatype step = Return_response dict | Break_loop | Continue_loop "nat list"

text \<open>
  The retry of a market order after the return code 10016: the same request with
  \<open>sl\<close> and \<open>tp\<close> set to zero is sent once, and every branch returns.
\<close>

definition retry_without_stops ::
    "mt5_lib \<Rightarrow> order_ctx \<Rightarrow> trade_request \<Rightarrow> terminal \<Rightarrow> dict \<times> terminal" where
  "retry_without_stops lib cx trade_request term =
     (let retry_request = trade_request\<lparr>tq_sl := Some 0, tq_tp := Some 0\<rparr>;
          (retry_result, term') = order_send term retry_request
      in case retry_result of
           None \<Rightarrow>
             (let (error_code, error_desc) = t_last_error term'
              in (make_error_response (if error_code \<noteq> 0 then error_code else - 10009)
                    [Str ''OrderSend failed after retry without stops: '', Str error_desc,
                     Str '' (code: '', Dec error_code, Str '')'']
                    (PStr (cx_actual_symbol cx)) (PStr (cx_direction cx))
                    (PStr (cx_order_kind cx)) (PVolume (cx_normalized_volume cx)),
                  term'))
         | Some rr \<Rightarrow>
             if or_retcode rr = TRADE_RETCODE_DONE lib
             then (make_success_response (or_order rr) (cx_actual_symbol cx)
                     (cx_normalized_volume cx) (cx_entry_price_used cx) (cx_direction cx)
                     (cx_order_kind cx),
                   term'\<lparr>t_success_log := t_success_log term' @
                      [\<lparr>sl_ticket = or_order rr, sl_stop_loss = 0, sl_take_profit = 0,
                        sl_retry_without_stops = True\<rparr>]\<rparr>)
             else (make_error_response (or_retcode rr)
                     [Str ''MT5 order_send failed after retry without stops: '',
                      Str (comment_or (or_comment rr) ''Unknown error'')]
                     (PStr (cx_actual_symbol cx)) (PStr (cx_direction cx))
                     (PStr (cx_order_kind cx)) (PVolume (cx_normalized_volume cx)),
                   term'))"

text \<open>
  The fallback of the unsupported-filling-mode branch: once the reported modes are
  used up, the modes of the full list not tried yet are appended, at most once.
\<close>

definition with_fallback ::
    "mt5_lib \<Rightarrow> order_ctx \<Rightarrow> nat list \<Rightarrow> nat \<Rightarrow> send_state \<Rightarrow> nat list \<times> send_state" where
  "with_fallback lib cx modes_list modes_index st =
     (if modes_index \<ge> length (cx_filling_modes_to_try cx) \<and> \<not> ss_has_tried_fallback st
      then
        (let fallback_to_add =
               filter (\<lambda>m. m \<notin> set (ss_tried_modes st)) (all_filling_modes lib)
         in if fallback_to_add \<noteq> []
            then (modes_list @ fallback_to_add, st\<lparr>ss_has_tried_fallback := True\<rparr>)
            else (modes_list, st))
      else (modes_list, st))"

text \<open>
  The request dictionary built in the loop (lines 663 to 685): \<open>None\<close> stops are
  sent as zero, and the deviation and the filling mode are set for market execution only.
\<close>

definition build_trade_request :: "order_ctx \<Rightarrow> send_state \<Rightarrow> nat \<Rightarrow> trade_request" where
  "build_trade_request cx st filling_mode =
     (let deal = (cx_action cx = TRADE_ACTION_DEAL);
          trade_sl = (case ss_adjusted_sl st of None \<Rightarrow> 0 | Some x \<Rightarrow> x);
          trade_tp = (case ss_adjusted_tp st of None \<Rightarrow> 0 | Some x \<Rightarrow> x)
      in \<lparr>tq_action = cx_action cx, tq_symbol = cx_symbol cx,
          tq_volume = cx_lot_size cx, tq_type = cx_order_type cx,
          tq_price = cx_entry_price_used cx, tq_sl = Some trade_sl, tq_tp = Some trade_tp,
          tq_position = None, tq_magic = 123456,
          tq_comment = Comment_strategy (cx_strategy cx),
          tq_deviation = (if deal then Some 20 else None),
          tq_type_filling = (if deal then Some filling_mode else None)\<rparr>)"

text \<open>
  The body of the \<open>while\<close> loop, for \<open>modes_index < len(modes_list)\<close>; the index
  is increased before the request is built, as in the code.
\<close>

definition send_step ::
    "mt5_lib \<Rightarrow> order_ctx \<Rightarrow> nat \<Rightarrow> nat list \<Rightarrow> nat \<Rightarrow> send_state \<Rightarrow> terminal
       \<Rightarrow> step \<times> send_state \<times> terminal" where
  "send_step lib cx attempt modes_list modes_index st term =
     (let filling_mode = modes_list ! modes_index;
          modes_index' = modes_index + 1;
          deal = (cx_action cx = TRADE_ACTION_DEAL);
          st1 = (if deal then st\<lparr>ss_tried_modes := ss_tried_modes st @ [filling_mode]\<rparr>
                 else st);
          trade_sl = (case ss_adjusted_sl st of None \<Rightarrow> 0 | Some x \<Rightarrow> x);
          trade_tp = (case ss_adjusted_tp st of None \<Rightarrow> 0 | Some x \<Rightarrow> x);
          trade_request = build_trade_request cx st filling_mode;
          (result, term1) = order_send term trade_request;
          st2 = st1\<lparr>ss_result := result\<rparr>
      in case result of
           None \<Rightarrow>
             (let (error_code, error_desc) = t_last_error term1
              in if deal
                 then (Continue_loop modes_list,
                       st2\<lparr>ss_last_error := Some
                          [Str ''OrderSend failed: '', Str error_desc, Str '' (code: '',
                           Dec error_code, Str '', filling_mode: '', Dec (int filling_mode),
                           Str '')'']\<rparr>,
                       term1)
                 else (Break_loop,
                       st2\<lparr>ss_last_error := Some
                          [Str ''OrderSend failed: '', Str error_desc, Str '' (code: '',
                           Dec error_code, Str '')'']\<rparr>,
                       term1))
         | Some r \<Rightarrow>
             if or_retcode r = TRADE_RETCODE_DONE lib
             then (Return_response
                     (make_success_response (or_order r) (cx_actual_symbol cx)
                        (cx_normalized_volume cx) (cx_entry_price_used cx) (cx_direction cx)
                        (cx_order_kind cx)),
                   st2,
                   term1\<lparr>t_success_log := t_success_log term1 @
                      [\<lparr>sl_ticket = or_order r, sl_stop_loss = trade_sl,
                        sl_take_profit = trade_tp,
                        sl_retry_without_stops = ss_retry_without_stops st\<rparr>]\<rparr>)
             else if or_retcode r = 10016
             then
               (if cx_order_kind cx = ''market''
                then (let (response, term2) = retry_without_stops lib cx trade_request term1
                      in (Return_response response, st2, term2))
                else if attempt = 0
                then (Break_loop,
                      st2\<lparr>ss_last_error := Some
                         [Str ''Invalid stops (code: '', Dec (or_retcode r), Str ''): '',
                          Str (or_comment r)]\<rparr>,
                      term1)
                else (Return_response
                        (failure_details
                           [Str ''OrderSend failed: Invalid stops even without SL/TP (code: '',
                            Dec (or_retcode r), Str '') - '', Str (or_comment r)]
                           (asdict r)),
                      st2, term1))
             else if or_retcode r = 10014
             then (Return_response
                     (failure_details
                        [Str ''OrderSend failed: Invalid volume (code: '', Dec (or_retcode r),
                         Str '') - '', Str (or_comment r)]
                        (asdict r)),
                   st2, term1)
             else if or_retcode r = 10030 \<and> deal
             then
               (let st3 = st2\<lparr>ss_last_error := Some
                            [Str ''Filling mode '', Dec (int filling_mode),
                             Str '' not supported (code: '', Dec (or_retcode r),
                             Str ''), trying next...'']\<rparr>;
                    (modes_list', st4) = with_fallback lib cx modes_list modes_index' st3
                in (Continue_loop modes_list', st4, term1))
             else if or_retcode r = 10030 \<and> cx_action cx = TRADE_ACTION_PENDING
             then (Return_response
                     (make_error_response (or_retcode r)
                        [Str ''OrderSend failed: '', Str (or_comment r), Str '' (code: '',
                         Dec (or_retcode r), Str '')'']
                        (PStr (cx_actual_symbol cx)) (PStr (cx_direction cx))
                        (PStr (cx_order_kind cx)) (PVolume (cx_normalized_volume cx))),
                   st2, term1)
             else if or_retcode r = 10027
             then (Return_response
                     (failure_details
                        [Str ''AutoTrading disabled by client (code: '', Dec (or_retcode r),
                         Str ''). Please enable Algo Trading in MT5 terminal'']
                        (asdict r)),
                   st2, term1)
             else
               (let error_msg = [Str ''OrderSend failed: '', Str (or_comment r),
                                 Str '' (code: '', Dec (or_retcode r), Str '')'']
                in if cx_action cx = TRADE_ACTION_PENDING
                   then (Return_response (failure_details error_msg (asdict r)), st2, term1)
                   else if or_retcode r = 10030
                   then (Continue_loop modes_list, st2\<lparr>ss_last_error := Some error_msg\<rparr>,
                         term1)
                   else (Break_loop, st2\<lparr>ss_last_error := Some error_msg\<rparr>, term1)))"

text \<open>
  The loops terminate because every pass moves the index forward and the list of
  modes grows at most once, by at most three entries.
\<close>

definition loop_budget :: "nat list \<Rightarrow> send_state \<Rightarrow> nat" where
  "loop_budget modes_list st = length modes_list + (if ss_has_tried_fallback st then 0 else 3)"

lemma with_fallback_budget:
  "with_fallback lib cx modes_list modes_index st = (modes_list', st') \<Longrightarrow>
     length modes_list' + (if ss_has_tried_fallback st' then 0 else 3)
       \<le> length modes_list + (if ss_has_tried_fallback st then 0 else (3::nat))"
proof -
  have "length (filter (\<lambda>m. m \<notin> set (ss_tried_modes st)) (all_filling_modes lib)) \<le> 3"
    using length_filter_le [of _ "all_filling_modes lib"] by (simp add: all_filling_modes_def)
  then show "with_fallback lib cx modes_list modes_index st = (modes_list', st') \<Longrightarrow>
     length modes_list' + (if ss_has_tried_fallback st' then 0 else 3)
       \<le> length modes_list + (if ss_has_tried_fallback st then 0 else (3::nat))"
    unfolding with_fallback_def Let_def
    by (auto split: if_splits)
qed

lemma send_step_budget:
  assumes "send_step lib cx attempt modes_list modes_index st term
             = (Continue_loop modes_list', st', term')"
  shows "loop_budget modes_list' st' \<le> loop_budget modes_list st"
  using assms unfolding send_step_def loop_budget_def Let_def
  by (auto split: prod.splits option.splits if_splits dest!: with_fallback_budget)

function modes_loop ::
    "mt5_lib \<Rightarrow> order_ctx \<Rightarrow> nat \<Rightarrow> nat list \<Rightarrow> nat \<Rightarrow> send_state \<Rightarrow> terminal
       \<Rightarrow> dict option \<times> send_state \<times> terminal" where
  "modes_loop lib cx attempt modes_list modes_index st term =
     (if modes_index < length modes_list
      then
        (case send_step lib cx attempt modes_list modes_index st term of
           (Return_response response, st', term') \<Rightarrow> (Some response, st', term')
         | (Break_loop, st', term') \<Rightarrow> (None, st', term')
         | (Continue_loop modes_list', st', term') \<Rightarrow>
             modes_loop lib cx attempt modes_list' (modes_index + 1) st' term')
      else (None, st, term))"
  by pat_completeness auto
termination
proof (relation "measure (\<lambda>(lib, cx, attempt, modes_list, modes_index, st, term).
                    loop_budget modes_list st - modes_index)")
  show "wf (measure (\<lambda>(lib, cx, attempt, modes_list, modes_index, st, term).
                    loop_budget modes_list st - modes_index))"
    by simp
next
  fix lib cx attempt modes_list modes_index st "term" x y x3 xa ya
  assume lt: "modes_index < length modes_list"
    and x: "(x, y) = send_step lib cx attempt modes_list modes_index st term"
    and c: "x = Continue_loop x3" and y: "(xa, ya) = y"
  from x c y have "send_step lib cx attempt modes_list modes_index st term
      = (Continue_loop x3, xa, ya)" by simp
  from send_step_budget [OF this] have "loop_budget x3 xa \<le> loop_budget modes_list st" .
  moreover from lt have "modes_index < loop_budget modes_list st"
    by (simp add: loop_budget_def)
  ultimately show "((lib, cx, attempt, x3, modes_index + 1, xa, ya),
        lib, cx, attempt, modes_list, modes_index, st, term)
       \<in> measure (\<lambda>(lib, cx, attempt, modes_list, modes_index, st, term).
                    loop_budget modes_list st - modes_index)"
    by simp
qed

declare modes_loop.simps [simp del]

text \<open>\<open>last_error or 'Unknown error'\<close> and the printed \<open>last_error\<close>.\<close>

definition last_error_or :: "fstring option \<Rightarrow> fstring" where
  "last_error_or e = (case e of None \<Rightarrow> [Str ''Unknown error''] | Some m \<Rightarrow> m)"

definition last_error_text :: "fstring option \<Rightarrow> fstring" where
  "last_error_text e = (case e of None \<Rightarrow> [Unset] | Some m \<Rightarrow> m)"

text \<open>The failure returned when both attempts have ended without a return.\<close>

definition all_attempts_failed :: "order_ctx \<Rightarrow> send_state \<Rightarrow> dict" where
  "all_attempts_failed cx st =
     (let error_details = (case ss_result st of None \<Rightarrow> [] | Some r \<Rightarrow> asdict r)
      in if cx_action cx = TRADE_ACTION_DEAL
         then failure_details
                ([Str ''OrderSend failed: No supported filling mode found for '',
                  Str (cx_symbol cx), Str ''. Tried modes: '']
                 @ (if ss_tried_modes st = [] then [Str ''none'']
                    else join_modes (ss_tried_modes st))
                 @ [Str ''. Last error: ''] @ last_error_or (ss_last_error st))
                error_details
         else failure_details
                ([Str ''OrderSend failed: ''] @ last_error_or (ss_last_error st))
                error_details)"

text \<open>
  The variables as they are set before the loops, and
  \<open>for attempt in range(max_attempts)\<close> with \<open>max_attempts = 2\<close>: the second
  attempt clears both stops and sets \<open>retry_without_stops\<close>, for every order kind.
\<close>

definition initial_state :: "real option \<Rightarrow> real option \<Rightarrow> send_state" where
  "initial_state adjusted_sl adjusted_tp =
     \<lparr>ss_adjusted_sl = adjusted_sl, ss_adjusted_tp = adjusted_tp,
      ss_retry_without_stops = False, ss_last_error = None,
      ss_tried_modes = [], ss_has_tried_fallback = False, ss_result = None\<rparr>"

definition submit_orders ::
    "mt5_lib \<Rightarrow> order_ctx \<Rightarrow> real option \<Rightarrow> real option \<Rightarrow> terminal \<Rightarrow> dict \<times> terminal" where
  "submit_orders lib cx adjusted_sl adjusted_tp term =
     (let st0 = initial_state adjusted_sl adjusted_tp
      in case modes_loop lib cx 0 (cx_filling_modes_to_try cx) 0 st0 term of
           (Some response, st1, term1) \<Rightarrow> (response, term1)
         | (None, st1, term1) \<Rightarrow>
             (let st1' = st1\<lparr>ss_adjusted_sl := Some 0, ss_adjusted_tp := Some 0,
                             ss_retry_without_stops := True\<rparr>
              in case modes_loop lib cx 1 (cx_filling_modes_to_try cx) 0 st1' term1 of
                   (Some response, st2, term2) \<Rightarrow> (response, term2)
                 | (None, st2, term2) \<Rightarrow> (all_attempts_failed cx st2, term2)))"

subsection \<open>\<open>MT5Client.open_trade\<close>\<close>

text \<open>
  The branch on the order kind (lines 444 to 523): an early failure, or the order type,
  the entry price used and the action.
\<close>

definition order_kind_branch ::
    "string \<Rightarrow> string \<Rightarrow> real option \<Rightarrow> mt5_tick \<Rightarrow> string \<Rightarrow> real
       \<Rightarrow> dict + order_type \<times> real \<times> action" where
  "order_kind_branch order_kind direction entry_price tick symbol lot_size =
     (let current_bid = tk_bid tick; current_ask = tk_ask tick
      in if order_kind = ''market''
         then (if lower direction = ''buy''
               then Inr (ORDER_TYPE_BUY, current_ask, TRADE_ACTION_DEAL)
               else Inr (ORDER_TYPE_SELL, current_bid, TRADE_ACTION_DEAL))
         else if order_kind \<in> {''limit'', ''stop''}
         then
           (case entry_price of
              None \<Rightarrow> Inl (failure [Str ''entry_price is required for '', Str order_kind,
                                     Str '' orders''])
            | Some p \<Rightarrow>
                if p \<le> 0
                then Inl (failure [Str ''entry_price is required for '', Str order_kind,
                                   Str '' orders''])
                else if lower direction = ''buy''
                then (if order_kind = ''limit''
                      then (if p \<ge> current_ask
                            then Inl (failure
                              [Str ''Invalid pending order: BUY_LIMIT must have price < current ask ('',
                               Num current_ask, Str '')''])
                            else Inr (ORDER_TYPE_BUY_LIMIT, p, TRADE_ACTION_PENDING))
                      else (if p \<le> current_ask
                            then Inl (failure
                              [Str ''Invalid pending order: BUY_STOP must have price > current ask ('',
                               Num current_ask, Str '')''])
                            else Inr (ORDER_TYPE_BUY_STOP, p, TRADE_ACTION_PENDING)))
                else (if order_kind = ''limit''
                      then (if p \<le> current_bid
                            then Inl (failure
                              [Str ''Invalid pending order: SELL_LIMIT must have price > current bid ('',
                               Num current_bid, Str '')''])
                            else Inr (ORDER_TYPE_SELL_LIMIT, p, TRADE_ACTION_PENDING))
                      else (if p \<ge> current_bid
                            then Inl (failure
                              [Str ''Invalid pending order: SELL_STOP must have price < current bid ('',
                               Num current_bid, Str '')''])
                            else Inr (ORDER_TYPE_SELL_STOP, p, TRADE_ACTION_PENDING))))
         else Inl (make_error_response (- 10007)
                     [Str ''Invalid order_kind: '', Str order_kind,
                      Str ''. Must be market, limit, or stop'']
                     (PStr symbol) (PStr direction) (PStr order_kind) (PReal lot_size)))"

text \<open>
  The body of the \<open>try\<close> block, from the tick fetch on. The volume is normalized by
  the call \<open>self._normalize_volume(original_volume, symbol_info)\<close>, with two
  arguments, and its result is bound to \<open>normalized_volume\<close> without unpacking.
\<close>

definition open_trade_body ::
    "mt5_lib \<Rightarrow> terminal \<Rightarrow> string \<Rightarrow> string \<Rightarrow> string \<Rightarrow> string \<Rightarrow> real \<Rightarrow> real option
       \<Rightarrow> real option \<Rightarrow> real option \<Rightarrow> string \<Rightarrow> dict outcome \<times> terminal" where
  "open_trade_body lib term symbol actual_symbol direction order_kind lot_size entry_price
       stop_loss take_profit strategy =
     (case t_tick term symbol of
        None \<Rightarrow>
          (let (error_code, error_desc) = t_last_error term
           in (Returned (make_error_response (if error_code \<noteq> 0 then error_code else - 10003)
                 [Str ''Failed to get market price for '', Str symbol, Str '': '',
                  Dec error_code, Str '' - '', Str error_desc]
                 (PStr symbol) (PStr direction) (PStr order_kind) (PReal lot_size)),
               term))
      | Some tick \<Rightarrow>
          (case t_info term symbol of
             None \<Rightarrow>
               (let (error_code, error_desc) = t_last_error term
                in (Returned (failure [Str ''Could not get symbol info for '', Str symbol,
                      Str '': '', Dec error_code, Str '' - '', Str error_desc]),
                    term))
           | Some symbol_info \<Rightarrow>
               (case order_kind_branch order_kind direction entry_price tick symbol lot_size of
                  Inl early \<Rightarrow> (Returned early, term)
                | Inr (mt5_order_type, entry_price_used, action) \<Rightarrow>
                    (let original_volume = lot_size
                     in case call_normalize_volume [PReal original_volume, PInfo symbol_info] of
                          Raised e \<Rightarrow> (Raised e, term)
                        | Returned nv \<Rightarrow>
                            (let normalized_volume = Volume_pair (fst nv) (snd nv);
                                 (adjusted_sl, adjusted_tp) =
                                   (if stop_loss = None \<and> take_profit = None
                                    then (None, None)
                                    else adjust_stop_loss_take_profit symbol_info
                                           entry_price_used stop_loss take_profit direction);
                                 filling_modes_to_try =
                                   (if action = TRADE_ACTION_DEAL
                                    then get_filling_modes lib (Some symbol_info)
                                    else [ORDER_FILLING_RETURN lib]);
                                 cx = \<lparr>cx_symbol = symbol, cx_actual_symbol = actual_symbol,
                                       cx_direction = direction, cx_order_kind = order_kind,
                                       cx_action = action, cx_order_type = mt5_order_type,
                                       cx_entry_price_used = entry_price_used,
                                       cx_lot_size = normalized_volume,
                                       cx_normalized_volume = normalized_volume,
                                       cx_original_volume = original_volume,
                                       cx_strategy = strategy,
                                       cx_filling_modes_to_try = filling_modes_to_try\<rparr>;
                                 (response, term') =
                                   submit_orders lib cx adjusted_sl adjusted_tp term
                             in (Returned response, term'))))))"

text \<open>
  \<open>open_trade\<close>: the connection check and the symbol check, then the \<open>try\<close>
  block, whose \<open>except Exception\<close> handler turns every exception into the error
  response with the code -10011.
\<close>

definition open_trade :: "mt5_lib \<Rightarrow> terminal \<Rightarrow> request_dict \<Rightarrow> dict \<times> terminal" where
  "open_trade lib term request =
     (let (init_success, init_msg) = t_initialized term
      in if \<not> init_success
         then (failure [Str ''MT5 connection failed: '', Str init_msg], term)
         else
           (let symbol = rd_symbol request;
                direction = rd_direction request;
                order_kind = lower (case rd_order_kind request of
                                      None \<Rightarrow> ''market'' | Some k \<Rightarrow> k);
                lot_size = rd_lot_size request;
                entry_price = rd_entry_price request;
                stop_loss = py_or (rd_stop_loss request) (rd_stop_loss_price request);
                take_profit = py_or (rd_take_profit request) (rd_take_profit_price request);
                strategy = (case rd_strategy request of None \<Rightarrow> ''unknown'' | Some s \<Rightarrow> s);
                (symbol_valid, actual_symbol, symbol_msg) = t_valid_symbol term symbol
            in if \<not> symbol_valid
               then (make_error_response (- 10002) [Str symbol_msg]
                       (PStr symbol) (PStr direction) (PStr order_kind) (PReal lot_size),
                     term)
               else
                 (case open_trade_body lib term actual_symbol actual_symbol direction
                         order_kind lot_size entry_price stop_loss take_profit strategy of
                    (Returned response, term') \<Rightarrow> (response, term')
                  | (Raised e, term') \<Rightarrow>
                      (make_error_response (- 10011)
                         [Str ''Exception during open_trade: '', Exn e]
                         (PStr (rd_symbol request)) (PStr (rd_direction request))
                         (case rd_order_kind request of None \<Rightarrow> PNone | Some k \<Rightarrow> PStr k)
                         (PReal (rd_lot_size request)),
                       term'))))"

subsection \<open>\<open>MT5Client.close_trade\<close> and \<open>MT5Client.partial_close_trade\<close>\<close>

definition opposite :: "order_type \<Rightarrow> order_type" where
  "opposite t = (if t = ORDER_TYPE_BUY then ORDER_TYPE_SELL else ORDER_TYPE_BUY)"

text \<open>The loop \<open>for filling_mode in filling_modes_to_try\<close> of \<open>close_trade\<close>.\<close>

fun close_loop ::
    "mt5_lib \<Rightarrow> (nat \<Rightarrow> trade_request) \<Rightarrow> nat list \<Rightarrow> fstring option \<Rightarrow> terminal
       \<Rightarrow> dict \<times> terminal" where
  "close_loop lib close_request [] last_error term =
     (failure ([Str ''Close failed: No supported filling mode found. Last error: '']
               @ last_error_text last_error),
      term)"
| "close_loop lib close_request (filling_mode # rest) last_error term =
     (let (result, term1) = order_send term (close_request filling_mode)
      in case result of
           None \<Rightarrow>
             (let (error_code, error_desc) = t_last_error term1;
                  last_error' = [Str ''Close order failed: '', Str error_desc, Str '' (code: '',
                                 Dec error_code, Str '', filling_mode: '',
                                 Dec (int filling_mode), Str '')'']
              in if error_code = 10030
                 then close_loop lib close_request rest (Some last_error') term1
                 else (failure last_error', term1))
         | Some r \<Rightarrow>
             if or_retcode r = TRADE_RETCODE_DONE lib
             then ([(''success'', PBool True)], term1)
             else if or_retcode r = 10030
             then close_loop lib close_request rest
                    (Some [Str ''Filling mode '', Dec (int filling_mode),
                           Str '' not supported (code: '', Dec (or_retcode r),
                           Str ''), trying next...''])
                    term1
             else (failure [Str ''Close failed: '', Str (or_comment r), Str '' (code: '',
                            Dec (or_retcode r), Str '')''],
                   term1))"

definition close_trade :: "mt5_lib \<Rightarrow> terminal \<Rightarrow> int \<Rightarrow> dict \<times> terminal" where
  "close_trade lib term ticket =
     (let (init_success, init_msg) = t_initialized term
      in if \<not> init_success
         then (failure [Str ''MT5 connection failed: '', Str init_msg], term)
         else
           (case t_positions term ticket of
              None \<Rightarrow> (failure [Str ''Position with ticket '', Dec ticket, Str '' not found''],
                        term)
            | Some [] \<Rightarrow> (failure [Str ''Position with ticket '', Dec ticket,
                                   Str '' not found''],
                          term)
            | Some (position # others) \<Rightarrow>
                (let order_type = opposite (ps_type position)
                 in case t_tick term (ps_symbol position) of
                      None \<Rightarrow>
                        (failure [Str ''Failed to get market price for '',
                                  Str (ps_symbol position), Str '': '',
                                  Dec (fst (t_last_error term))],
                         term)
                    | Some tick \<Rightarrow>
                        (let price = (if ps_type position = ORDER_TYPE_BUY then tk_bid tick
                                      else tk_ask tick);
                             symbol_info = t_info term (ps_symbol position);
                             filling_modes_to_try = get_filling_modes lib symbol_info;
                             close_request = (\<lambda>filling_mode.
                               \<lparr>tq_action = TRADE_ACTION_DEAL, tq_symbol = ps_symbol position,
                                tq_volume = Volume (ps_volume position), tq_type = order_type,
                                tq_price = price, tq_sl = None, tq_tp = None,
                                tq_position = Some ticket, tq_magic = 123456,
                                tq_comment = Comment_close, tq_deviation = Some 20,
                                tq_type_filling = Some filling_mode\<rparr>)
                         in close_loop lib close_request filling_modes_to_try None term))))"

text \<open>The loop of \<open>partial_close_trade\<close>, with its own messages and success result.\<close>

fun partial_close_loop ::
    "mt5_lib \<Rightarrow> (nat \<Rightarrow> trade_request) \<Rightarrow> dict \<Rightarrow> nat list \<Rightarrow> fstring option \<Rightarrow> terminal
       \<Rightarrow> dict \<times> terminal" where
  "partial_close_loop lib close_request done [] last_error term =
     (failure ([Str ''Partial close failed: No supported filling mode found. Last error: '']
               @ last_error_text last_error),
      term)"
| "partial_close_loop lib close_request done (filling_mode # rest) last_error term =
     (let (result, term1) = order_send term (close_request filling_mode)
      in case result of
           None \<Rightarrow>
             (let (error_code, error_desc) = t_last_error term1;
                  last_error' = [Str ''Partial close order failed: '', Str error_desc,
                                 Str '' (code: '', Dec error_code, Str '', filling_mode: '',
                                 Dec (int filling_mode), Str '')'']
              in if error_code = 10030
                 then partial_close_loop lib close_request done rest (Some last_error') term1
                 else (failure last_error', term1))
         | Some r \<Rightarrow>
             if or_retcode r = TRADE_RETCODE_DONE lib
             then (done, term1)
             else if or_retcode r = 10030
             then partial_close_loop lib close_request done rest
                    (Some [Str ''Filling mode '', Dec (int filling_mode),
                           Str '' not supported (code: '', Dec (or_retcode r),
                           Str ''), trying next...''])
                    term1
             else (failure [Str ''Partial close failed: '', Str (or_comment r),
                            Str '' (code: '', Dec (or_retcode r), Str '')''],
                   term1))"

text \<open>
  The body of the \<open>try\<close> block of \<open>partial_close_trade\<close>. The volume is
  normalized by the call \<open>self._normalize_volume(volume_to_close, symbol_info)\<close>,
  with two arguments; its result is unpacked here.
\<close>

definition partial_close_body ::
    "mt5_lib \<Rightarrow> terminal \<Rightarrow> int \<Rightarrow> real \<Rightarrow> dict outcome \<times> terminal" where
  "partial_close_body lib term ticket volume_percent =
     (if volume_percent \<le> 0 \<or> volume_percent \<ge> 100
      then (Returned (failure [Str ''volume_percent must be between 0 and 100, got '',
                               Num volume_percent]),
            term)
      else
        (case t_positions term ticket of
           None \<Rightarrow> (Returned (failure [Str ''Position with ticket '', Dec ticket,
                                        Str '' not found'']),
                     term)
         | Some [] \<Rightarrow> (Returned (failure [Str ''Position with ticket '', Dec ticket,
                                           Str '' not found'']),
                        term)
         | Some (position # others) \<Rightarrow>
             (let volume_to_close = double (double (ps_volume position * volume_percent) / 100)
              in case t_info term (ps_symbol position) of
                   None \<Rightarrow>
                     (let (error_code, error_desc) = t_last_error term
                      in (Returned (failure [Str ''Failed to get symbol info for '',
                            Str (ps_symbol position), Str '': '', Dec error_code, Str '' - '',
                            Str error_desc]),
                          term))
                 | Some symbol_info \<Rightarrow>
                     (case call_normalize_volume [PReal volume_to_close, PInfo symbol_info] of
                        Raised e \<Rightarrow> (Raised e, term)
                      | Returned (normalized_volume, vol_error) \<Rightarrow>
                          (case vol_error of
                             Some err \<Rightarrow> (Returned (failure [Vol err]), term)
                           | None \<Rightarrow>
                               if normalized_volume \<ge> ps_volume position
                               then (case close_trade lib term ticket of
                                       (response, term') \<Rightarrow> (Returned response, term'))
                               else
                                 (let order_type = opposite (ps_type position)
                                  in case t_tick term (ps_symbol position) of
                                       None \<Rightarrow>
                                         (Returned (failure
                                            [Str ''Failed to get market price for '',
                                             Str (ps_symbol position), Str '': '',
                                             Dec (fst (t_last_error term))]),
                                          term)
                                     | Some tick \<Rightarrow>
                                         (let price = (if ps_type position = ORDER_TYPE_BUY
                                                       then tk_bid tick else tk_ask tick);
                                              filling_modes_to_try =
                                                get_filling_modes lib (Some symbol_info);
                                              close_request = (\<lambda>filling_mode.
                                                \<lparr>tq_action = TRADE_ACTION_DEAL,
                                                 tq_symbol = ps_symbol position,
                                                 tq_volume = Volume normalized_volume,
                                                 tq_type = order_type, tq_price = price,
                                                 tq_sl = None, tq_tp = None,
                                                 tq_position = Some ticket, tq_magic = 123456,
                                                 tq_comment = Comment_partial_close volume_percent,
                                                 tq_deviation = Some 20,
                                                 tq_type_filling = Some filling_mode\<rparr>);
                                              done =
                                                [(''success'', PBool True),
                                                 (''ticket'', PInt ticket),
                                                 (''volume_closed'', PReal normalized_volume),
                                                 (''volume_percent'', PReal volume_percent),
                                                 (''remaining_volume'',
                                                  PReal (double (ps_volume position - normalized_volume)))]
                                          in case partial_close_loop lib close_request done
                                                    filling_modes_to_try None term of
                                               (response, term') \<Rightarrow>
                                                 (Returned response, term'))))))))"

text \<open>
  \<open>partial_close_trade\<close>: the connection check, then the \<open>try\<close> block, whose
  \<open>except Exception\<close> handler turns every exception into a failure.
\<close>

definition partial_close_trade ::
    "mt5_lib \<Rightarrow> terminal \<Rightarrow> int \<Rightarrow> real \<Rightarrow> dict \<times> terminal" where
  "partial_close_trade lib term ticket volume_percent =
     (let (init_success, init_msg) = t_initialized term
      in if \<not> init_success
         then (failure [Str ''MT5 connection failed: '', Str init_msg], term)
         else
           (case partial_close_body lib term ticket volume_percent of
              (Returned response, term') \<Rightarrow> (response, term')
            | (Raised e, term') \<Rightarrow>
                (failure [Str ''Exception during partial_close_trade: '', Exn e], term')))"

subsection \<open>Concrete runs of the client\<close>

text \<open>
  A connected terminal that knows EURUSD (constraints \<open>eurusd\<close>, bid 1.0999, ask
  1.1) and holds the position 7, a buy of 0.10 lots; its replies to \<open>order_send\<close>
  are given. \<open>request_done\<close> is the reply of an accepted request, \<open>invalid_stops\<close>
  the rejection with the return code 10016.
\<close>

definition request_done :: order_result where
  "request_done = \<lparr>or_retcode = 10009, or_order = 1001, or_comment = ''Request executed''\<rparr>"

definition invalid_stops :: order_result where
  "invalid_stops = \<lparr>or_retcode = 10016, or_order = 0, or_comment = ''Invalid stops''\<rparr>"

definition position7 :: position where
  "position7 = \<lparr>ps_symbol = ''EURUSD'', ps_type = ORDER_TYPE_BUY, ps_volume = double (1 / 10),
                  ps_price_open = 11 / 10, ps_sl = 0, ps_tp = 0\<rparr>"

definition live_terminal :: "symbol_info \<Rightarrow> order_result option list \<Rightarrow> terminal" where
  "live_terminal info replies =
     \<lparr>t_initialized = (True, ''Already connected''),
      t_valid_symbol = (\<lambda>s. if upper s = ''EURUSD'' then (True, ''EURUSD'', ''Symbol valid'')
                            else (False, s, ''Symbol not found'')),
      t_tick = (\<lambda>s. if s = ''EURUSD''
                     then Some \<lparr>tk_bid = 10999 / 10000, tk_ask = 11 / 10, tk_volume = Some 1,
                                tk_time = 1700000000\<rparr>
                     else None),
      t_info = (\<lambda>s. if s = ''EURUSD'' then Some info else None),
      t_positions = (\<lambda>ticket. if ticket = 7 then Some [position7] else Some []),
      t_last_error = (1, ''Success''),
      t_replies = replies,
      t_sent = [],
      t_success_log = []\<rparr>"

text \<open>A market buy of 0.10 lots with neither stop-loss nor take-profit.\<close>

definition naked_request :: request_dict where
  "naked_request =
     \<lparr>rd_symbol = ''EURUSD'', rd_direction = ''buy'', rd_order_kind = Some ''market'',
      rd_entry_price = None, rd_lot_size = 1 / 10, rd_stop_loss = None,
      rd_take_profit = None, rd_stop_loss_price = None, rd_take_profit_price = None,
      rd_strategy = Some ''low''\<rparr>"

text \<open>Constraints with min 0.01, max 50 and the coarse step 0.1.\<close>

definition coarse_step :: symbol_info where
  "coarse_step = \<lparr>volume_min = Some (double (1 / 100)), volume_max = Some 50,
     volume_step = Some (double (1 / 10)), point = 1 / 100000, trade_stops_level = Some 10,
     si_filling_mode = 1\<rparr>"

text \<open>A market buy of 0.10 lots with the stop-loss 1.09 and the take-profit 1.12.\<close>

definition stops_request :: request_dict where
  "stops_request =
     \<lparr>rd_symbol = ''EURUSD'', rd_direction = ''buy'', rd_order_kind = Some ''market'',
      rd_entry_price = None, rd_lot_size = 1 / 10, rd_stop_loss = Some (109 / 100),
      rd_take_profit = Some (112 / 100), rd_stop_loss_price = None,
      rd_take_profit_price = None, rd_strategy = Some ''low''\<rparr>"

section \<open>Cancelling a pending order\<close>

text \<open>
  \<open>CancelOrderRequest\<close> and its validator: a ticket of zero is replaced by
  \<open>mt5_ticket\<close> when that is given, and a ticket that is not positive is refused.
\<close>

record cancel_order_request =
  co_ticket :: int
  co_mt5_ticket :: "int option"

definition validate_ticket :: "cancel_order_request \<Rightarrow> cancel_order_request outcome" where
  "validate_ticket request =
     (let request' =
            (case co_mt5_ticket request of
               None \<Rightarrow> request
             | Some t \<Rightarrow> if co_ticket request = 0 then request\<lparr>co_ticket := t\<rparr> else request)
      in if co_ticket request' \<le> 0
         then Raised (ValidationError ''ticket must be a positive integer (or provide mt5_ticket)'')
         else Returned request')"

text \<open>
  An object as attribute lookup sees it: the name of its class, the names bound in
  the class body and by \<open>__init__\<close>, and what the call of a bound name with one
  ticket gives. Looking up a name that is not bound raises \<open>AttributeError\<close>.
\<close>

record client_object =
  ob_class :: string
  ob_names :: "string list"
  ob_call :: "string \<Rightarrow> int \<Rightarrow> client_result outcome"

definition no_attribute :: "string \<Rightarrow> string \<Rightarrow> exn" where
  "no_attribute cls name =
     AttributeError
       ([CHR 0x27] @ cls @ [CHR 0x27] @ '' object has no attribute '' @ [CHR 0x27] @ name
          @ [CHR 0x27])"

definition call_method :: "client_object \<Rightarrow> string \<Rightarrow> int \<Rightarrow> client_result outcome" where
  "call_method ob name ticket =
     (if name \<in> set (ob_names ob) then ob_call ob name ticket
      else Raised (no_attribute (ob_class ob) name))"

text \<open>
  The class \<open>MT5Client\<close>: the three fields set by \<open>__init__\<close> and the methods
  of the class body, in the order of the source. The bodies of the methods are a
  parameter here.
\<close>

definition MT5Client_names :: "string list" where
  "MT5Client_names =
     [''config'', ''_initialized'', ''_connected'',
      ''__init__'', ''initialize'', ''_login'', ''ensure_initialized'', ''shutdown'',
      ''is_connected'', ''validate_symbol'', ''_make_error_response'',
      ''_make_success_response'', ''get_price'', ''open_trade'', ''modify_trade'',
      ''partial_close_trade'', ''close_trade'', ''_adjust_stop_loss_take_profit'',
      ''_normalize_volume'', ''_get_filling_modes'', ''get_open_positions'']"

definition MT5Client :: "(string \<Rightarrow> int \<Rightarrow> client_result outcome) \<Rightarrow> client_object" where
  "MT5Client methods =
     \<lparr>ob_class = ''MT5Client'', ob_names = MT5Client_names, ob_call = methods\<rparr>"

text \<open>
  The endpoint \<open>POST /api/v1/trades/cancel\<close> on a validated request. \<open>client\<close>
  is the global \<open>mt5_client\<close>. The body has no \<open>try\<close>: what the call raises
  leaves the endpoint as it is.
\<close>

definition cancel_order_endpoint ::
    "client_object option \<Rightarrow> cancel_order_request \<Rightarrow> trade_response outcome" where
  "cancel_order_endpoint client request =
     (case client of
        None \<Rightarrow> Raised (HTTPException 500 (Text ''MT5 client not initialized''))
      | Some ob \<Rightarrow>
          (let ticket =
                 (case co_mt5_ticket request of
                    None \<Rightarrow> co_ticket request
                  | Some t \<Rightarrow> if t \<noteq> 0 \<and> co_ticket request \<noteq> t then t
                             else co_ticket request)
           in case call_method ob ''cancel_order'' ticket of
                Raised e \<Rightarrow> Raised e
              | Returned result \<Rightarrow>
                  if cr_success result then Returned (TradeResponse True (Some ticket))
                  else
                    (let error_msg =
                           (case cr_error result of None \<Rightarrow> ''Unknown error'' | Some e \<Rightarrow> e);
                         status_code =
                           (if contains ''not found'' (lower error_msg) then 404
                            else if contains ''connection'' (lower error_msg) then 500
                            else 400)
                     in Raised (HTTPException status_code (Text error_msg)))))"
section \<open>Verification\<close>

subsection \<open>Floats\<close>

lemma py_round_of_int [simp]: "py_round (of_int k) = k"
  by (simp add: py_round_def)

text \<open>
  \<open>double\<close> is the rounding of binary64: \<open>binade\<close> brackets the magnitude between
  two powers of two, the result is a multiple of the \<open>ulp\<close> of that binade with a
  significand of at most 53 bits, and it is within half an \<open>ulp\<close> of the exact value.
\<close>

lemma py_round_near: "\<bar>of_int (py_round x) - x\<bar> \<le> 1 / 2"
proof -
  have "of_int \<lfloor>x\<rfloor> \<le> x" "x < of_int \<lfloor>x\<rfloor> + 1"
    by linarith+
  then show ?thesis
    unfolding py_round_def Let_def by (auto simp: abs_le_iff)
qed

lemma binade_large:
  assumes "1 \<le> \<bar>x\<bar>"
  shows "2 powi binade x \<le> \<bar>x\<bar>" "\<bar>x\<bar> < 2 powi (binade x + 1)"
proof -
  let ?n = "nat \<lfloor>\<bar>x\<bar>\<rfloor>"
  let ?k = "floorlog 2 ?n"
  from assms have n: "0 < ?n" by simp
  from floorlog_bounds [of ?n 2] n
  have b: "2 ^ (?k - 1) \<le> ?n" "?n < 2 ^ ?k" by simp_all
  have k: "0 < ?k" using n by (simp add: floorlog_def)
  have e: "binade x = int (?k - 1)" using assms k by (simp add: binade_def)
  have "(2::real) ^ (?k - 1) \<le> real ?n" using b(1) by (metis of_nat_le_iff of_nat_numeral of_nat_power)
  also have "real ?n \<le> \<bar>x\<bar>" using assms by simp
  finally show "2 powi binade x \<le> \<bar>x\<bar>" by (simp add: e)
  have "Suc ?n \<le> 2 ^ ?k" using b(2) by (rule Suc_leI)
  then have "real (Suc ?n) \<le> 2 ^ ?k" by (metis of_nat_le_iff of_nat_numeral of_nat_power)
  moreover have "\<bar>x\<bar> < real (Suc ?n)" using assms by simp linarith
  ultimately have "\<bar>x\<bar> < 2 ^ ?k" by simp
  moreover have "binade x + 1 = int ?k" using e k by simp
  ultimately show "\<bar>x\<bar> < 2 powi (binade x + 1)" by simp
qed

lemma binade_small:
  assumes "x \<noteq> 0" "\<bar>x\<bar> < 1"
  shows "2 powi binade x \<le> \<bar>x\<bar>" "\<bar>x\<bar> < 2 powi (binade x + 1)"
proof -
  let ?y = "1 / \<bar>x\<bar>"
  let ?m = "nat (\<lceil>?y\<rceil> - 1)"
  let ?k = "floorlog 2 ?m"
  from assms have y: "1 < ?y" by simp
  then have c: "2 \<le> \<lceil>?y\<rceil>" by (simp add: le_ceiling_iff)
  then have m: "0 < ?m" by simp
  have m1: "real ?m < ?y" using c by simp linarith
  have m2: "?y \<le> real ?m + 1" using c by simp linarith
  from floorlog_bounds [of ?m 2] m
  have b: "2 ^ (?k - 1) \<le> ?m" "?m < 2 ^ ?k" by simp_all
  have k: "0 < ?k" using m by (simp add: floorlog_def)
  have e: "binade x = - int ?k" using assms by (simp add: binade_def)
  have "Suc ?m \<le> 2 ^ ?k" using b(2) by (rule Suc_leI)
  then have "real (Suc ?m) \<le> 2 ^ ?k" by (metis of_nat_le_iff of_nat_numeral of_nat_power)
  with m2 have "?y \<le> 2 ^ ?k" by simp
  then have "1 / 2 ^ ?k \<le> \<bar>x\<bar>" using assms(1)
    by (simp add: field_simps)
  then show "2 powi binade x \<le> \<bar>x\<bar>" by (simp add: e power_int_minus field_simps)
  have "(2::real) ^ (?k - 1) \<le> real ?m" using b(1) by (metis of_nat_le_iff of_nat_numeral of_nat_power)
  then have "2 ^ (?k - 1) < ?y" using m1 by (rule le_less_trans)
  then have "\<bar>x\<bar> < 1 / 2 ^ (?k - 1)" using assms(1)
    by (simp add: field_simps)
  moreover have "binade x + 1 = - int (?k - 1)" using e k by simp
  ultimately show "\<bar>x\<bar> < 2 powi (binade x + 1)" by (simp add: power_int_minus field_simps)
qed

lemma binade_bounds:
  assumes "x \<noteq> 0"
  shows "2 powi binade x \<le> \<bar>x\<bar> \<and> \<bar>x\<bar> < 2 powi (binade x + 1)"
  using assms binade_large [of x] binade_small [of x] by (cases "1 \<le> \<bar>x\<bar>") auto

lemma ulp_powi: "ulp x = 2 powi (binade x - 52)"
  by (simp add: ulp_def Let_def power_int_def power_one_over)

lemma double_near: "\<bar>double x - x\<bar> \<le> ulp x / 2"
proof (cases "x = 0")
  case True
  then show ?thesis by (simp add: double_def ulp_powi)
next
  case False
  have u: "0 < ulp x" by (simp add: ulp_powi)
  have "double x - x = (of_int (py_round (x / ulp x)) - x / ulp x) * ulp x"
    using False u by (simp add: double_def field_simps)
  then have "\<bar>double x - x\<bar> = \<bar>of_int (py_round (x / ulp x)) - x / ulp x\<bar> * ulp x"
    using u by (simp add: abs_mult)
  also have "\<dots> \<le> 1 / 2 * ulp x"
    using u by (intro mult_right_mono py_round_near) simp
  finally show ?thesis by simp
qed

lemma py_round_le_int:
  assumes "x \<le> of_int k"
  shows "py_round x \<le> k"
proof (cases "x = of_int k")
  case True
  then show ?thesis by simp
next
  case False
  with assms have lt: "x < of_int k" by simp
  then have "\<lfloor>x\<rfloor> < k" by (simp add: floor_less_iff)
  then have "\<lfloor>x\<rfloor> + 1 \<le> k" by simp
  moreover have "py_round x \<le> \<lfloor>x\<rfloor> + 1"
    unfolding py_round_def Let_def by simp
  ultimately show ?thesis by linarith
qed

lemma py_round_ge_int:
  assumes "of_int k \<le> x"
  shows "k \<le> py_round x"
proof -
  from assms have "k \<le> \<lfloor>x\<rfloor>" by (simp add: le_floor_iff)
  moreover have "\<lfloor>x\<rfloor> \<le> py_round x"
    unfolding py_round_def Let_def by simp
  ultimately show ?thesis by linarith
qed

lemma double_significand:
  assumes "x \<noteq> 0"
  shows "double x = of_int (py_round (x / ulp x)) * ulp x"
    and "\<bar>py_round (x / ulp x)\<bar> \<le> 2 ^ 53"
proof -
  show "double x = of_int (py_round (x / ulp x)) * ulp x"
    using assms by (simp add: double_def)
  have u: "0 < ulp x" by (simp add: ulp_powi)
  have "\<bar>x\<bar> < 2 powi (binade x + 1)" using binade_bounds [OF assms] by simp
  also have "(2::real) powi (binade x + 1) = 2 ^ 53 * ulp x"
    by (simp add: ulp_powi power_int_add power_int_diff)
  finally have "\<bar>x\<bar> / ulp x < 2 ^ 53" using u by (simp add: field_simps)
  then have "\<bar>x / ulp x\<bar> < 2 ^ 53" using u by simp
  then have b: "x / ulp x \<le> of_int (2 ^ 53)" "of_int (- (2 ^ 53)) \<le> x / ulp x"
    unfolding abs_less_iff by simp_all
  have "py_round (x / ulp x) \<le> 2 ^ 53" using b(1) by (rule py_round_le_int)
  moreover have "- (2 ^ 53) \<le> py_round (x / ulp x)" using b(2) by (rule py_round_ge_int)
  ultimately show "\<bar>py_round (x / ulp x)\<bar> \<le> 2 ^ 53" by simp
qed

text \<open>The floats of the decimal literals used below.\<close>

lemma double_hundredth: "double (1 / 100) = 5764607523034235 / 2 ^ 59"
  by (simp add: double_def ulp_def binade_def compute_floorlog py_round_def Let_def)

lemma double_tenth: "double (1 / 10) = 3602879701896397 / 2 ^ 55"
  by (simp add: double_def ulp_def binade_def compute_floorlog py_round_def Let_def)

lemma double_035: "double (35 / 100) = 6305039478318694 / 2 ^ 54"
  by (simp add: double_def ulp_def binade_def compute_floorlog py_round_def Let_def)

lemma double_096: "double (96 / 100) = 8646911284551352 / 2 ^ 53"
  by (simp add: double_def ulp_def binade_def compute_floorlog py_round_def Let_def)

lemma double_11: "double (11 / 10) = 4953959590107546 / 2 ^ 52"
  by (simp add: double_def ulp_def binade_def compute_floorlog py_round_def Let_def)

subsection \<open>Volume normalizer\<close>

text \<open>
  What holds for every input: a request below the minimum is rejected, a request over
  the maximum and over \<open>max * 1.1\<close> is rejected, and an accepted volume is never below
  the minimum.
\<close>

lemma normalize_rejects_below:
  assumes "requested < min_vol_of info"
  shows "normalize_volume requested info symbol
           = (0, Some (Below_minimum requested (min_vol_of info) symbol))"
  using assms by (simp add: normalize_volume_def Let_def)

lemma normalize_rejects_above:
  assumes "min_vol_of info \<le> requested" "max_vol_of info < requested"
    "double (max_vol_of info * double (11 / 10)) < requested"
  shows "normalize_volume requested info symbol
           = (0, Some (Exceeds_maximum requested (max_vol_of info) symbol))"
  using assms by (simp add: normalize_volume_def Let_def)

lemma normalize_ge_min:
  assumes "normalize_volume requested info symbol = (v, None)"
  shows "min_vol_of info \<le> v"
  using assms unfolding normalize_volume_def Let_def by (auto split: if_splits)

lemma small_max_simps:
  "min_vol_of small_max = 5764607523034235 / 2 ^ 59"
  "max_vol_of small_max = 6305039478318694 / 2 ^ 54"
  "step_of small_max = 5764607523034235 / 2 ^ 59"
  unfolding small_max_def min_vol_of_def max_vol_of_def step_of_def attr_or_def
    double_hundredth double_035
  by simp_all

lemma odd_max_simps:
  "min_vol_of odd_max = 3602879701896397 / 2 ^ 55"
  "max_vol_of odd_max = 8646911284551352 / 2 ^ 53"
  "step_of odd_max = 3602879701896397 / 2 ^ 55"
  unfolding odd_max_def min_vol_of_def max_vol_of_def step_of_def attr_or_def
    double_tenth double_096
  by simp_all

lemma normalize_small_max:
  "normalize_volume (double (35 / 100)) small_max ''EURUSD''
     = (6305039478318695 / 2 ^ 54, None)"
  unfolding normalize_volume_def small_max_simps double_035 Let_def
  by (simp add: double_def ulp_def binade_def compute_floorlog py_round_def Let_def)

lemma normalize_odd_max:
  "normalize_volume (double (96 / 100)) odd_max ''EURUSD'' = (1, None)"
  unfolding normalize_volume_def odd_max_simps double_096 Let_def
  by (simp add: double_def ulp_def binade_def compute_floorlog py_round_def Let_def)

text \<open>
  C4, evaluated on the code. On a symbol with min 0.01, max 0.35 and step 0.01 the
  request of 0.35 lots is accepted and comes back as 35 times the float 0.01, which is
  the float next above 0.35 (printed 0.35000000000000003): a volume over the maximum.
  On a symbol with min 0.1, max 0.96 and step 0.1 the request of 0.96 lots comes back
  as 1.0. In both cases the snapped volume is compared with the minimum only.
\<close>

theorem normalize_volume_exceeds_max:
  "normalize_volume (double (35 / 100)) small_max ''EURUSD''
     = (6305039478318695 / 2 ^ 54, None)
   \<and> max_vol_of small_max = 6305039478318694 / 2 ^ 54
   \<and> max_vol_of small_max
       < fst (normalize_volume (double (35 / 100)) small_max ''EURUSD'')
   \<and> normalize_volume (double (96 / 100)) odd_max ''EURUSD'' = (1, None)
   \<and> max_vol_of odd_max < fst (normalize_volume (double (96 / 100)) odd_max ''EURUSD'')"
  unfolding normalize_small_max normalize_odd_max small_max_simps odd_max_simps
  by simp

subsection \<open>Stop-distance normalizer\<close>

lemma lower_literals:
  "lower ''buy'' = ''buy''" "lower ''BUY'' = ''buy''" "lower ''sell'' = ''sell''"
  "lower ''market'' = ''market''" "lower ''limit'' = ''limit''"
  by (simp_all add: lower_def lower_char_def)








subsection \<open>Order-flow accumulator\<close>

lemma evict_suffix: "\<exists>dropped. xs = dropped @ evict c xs \<and> (\<forall>d \<in> set dropped. td_time d < c)"
proof (induction xs)
  case Nil
  then show ?case by simp
next
  case (Cons x xs)
  show ?case
  proof (cases "td_time x < c")
    case True
    from Cons obtain dropped where d: "xs = dropped @ evict c xs" "\<forall>d \<in> set dropped. td_time d < c"
      by blast
    have "x # xs = (x # dropped) @ evict c (x # xs)" using True d(1) by simp
    moreover have "\<forall>d \<in> set (x # dropped). td_time d < c" using True d(2) by simp
    ultimately show ?thesis by blast
  next
    case False
    then have "x # xs = [] @ evict c (x # xs)" by simp
    then show ?thesis by (metis empty_iff list.set(1))
  qed
qed

lemma evict_sorted_filter:
  "sorted (map td_time xs) \<Longrightarrow> evict c xs = filter (\<lambda>t. c \<le> td_time t) xs"
proof (induction xs)
  case Nil
  then show ?case by simp
next
  case (Cons x xs)
  show ?case
  proof (cases "td_time x < c")
    case True
    with Cons show ?thesis by simp
  next
    case False
    with Cons.prems have "\<forall>y \<in> set xs. c \<le> td_time y" by auto
    then have "filter (\<lambda>t. c \<le> td_time t) xs = xs" by simp
    with False show ?thesis by simp
  qed
qed

lemma buffer_add_tick:
  "buffer_of (add_tick acc now symbol bid ask volume time_opt) symbol
     = evict ((case time_opt of None \<Rightarrow> now | Some t \<Rightarrow> t) - of_int (lookback_seconds acc))
         (buffer_of acc symbol @ [TickData symbol bid ask volume (case time_opt of None \<Rightarrow> now | Some t \<Rightarrow> t)])"
  by (simp add: add_tick_def buffer_of_def Let_def)

lemma buffer_add_tick_other:
  "other \<noteq> symbol \<Longrightarrow>
     tick_buffers (add_tick acc now symbol bid ask volume time_opt) other = tick_buffers acc other"
  by (simp add: add_tick_def Let_def)

lemma lookback_add_tick [simp]:
  "lookback_seconds (add_tick acc now symbol bid ask volume time_opt) = lookback_seconds acc"
  by (simp add: add_tick_def Let_def)

lemma add_ticks_suffix:
  "\<exists>dropped. buffer_of acc symbol @ map (tick_of symbol) ticks
       = dropped @ buffer_of (add_ticks acc symbol ticks) symbol"
proof (induction ticks arbitrary: acc)
  case Nil
  show ?case by simp
next
  case (Cons x ticks)
  obtain bid ask volume time where x: "x = (bid, ask, volume, time)" by (cases x) auto
  let ?acc' = "add_tick acc time symbol bid ask volume (Some time)"
  from Cons [of ?acc'] obtain d2 where
    d2: "buffer_of ?acc' symbol @ map (tick_of symbol) ticks
           = d2 @ buffer_of (add_ticks ?acc' symbol ticks) symbol" by blast
  from evict_suffix [of "buffer_of acc symbol @ [TickData symbol bid ask volume time]"
      "time - of_int (lookback_seconds acc)"]
  obtain d1 where d1: "buffer_of acc symbol @ [TickData symbol bid ask volume time]
       = d1 @ buffer_of ?acc' symbol"
    by (auto simp: buffer_add_tick)
  have "buffer_of acc symbol @ map (tick_of symbol) (x # ticks)
        = (buffer_of acc symbol @ [TickData symbol bid ask volume time]) @ map (tick_of symbol) ticks"
    by (simp add: x tick_of_def)
  also have "\<dots> = d1 @ (buffer_of ?acc' symbol @ map (tick_of symbol) ticks)"
    using d1 by simp
  also have "\<dots> = (d1 @ d2) @ buffer_of (add_ticks ?acc' symbol ticks) symbol"
    using d2 by simp
  finally show ?case unfolding x by (metis add_ticks.simps(2))
qed

lemma compute_tick_count:
  assumes "compute_order_flow acc now symbol w = Some m"
  shows "of_tick_count m = length (recent_ticks (now - of_int (window_of acc w)) (buffer_of acc symbol))"
    and "5 \<le> length (buffer_of acc symbol)"
    and "recent_ticks (now - of_int (window_of acc w)) (buffer_of acc symbol) \<noteq> []"
  using assms unfolding compute_order_flow_def buffer_of_def Let_def
  by (auto simp: metrics_def Let_def split: option.splits if_splits prod.splits)

lemma buffer_five:
  "tick_buffers (add_ticks (new_accumulator 60) ''EURUSD'' five_ticks) ''EURUSD''
     = Some (map (tick_of ''EURUSD'') five_ticks)"
  by (simp add: five_ticks_def add_tick_def new_accumulator_def TickData_def tick_of_def Let_def)

lemma buffer_late:
  "tick_buffers (add_ticks (new_accumulator 60) ''EURUSD'' late_ticks) ''EURUSD''
     = Some (map (tick_of ''EURUSD'') (drop 2 late_ticks))"
  by (simp add: late_ticks_def add_tick_def new_accumulator_def TickData_def tick_of_def Let_def)

lemma buffer_three:
  "tick_buffers (add_ticks (new_accumulator 60) ''EURUSD'' three_ticks) ''EURUSD''
     = Some (map (tick_of ''EURUSD'') three_ticks)"
  by (simp add: three_ticks_def add_tick_def new_accumulator_def TickData_def tick_of_def Let_def)

lemma lookback_add_ticks [simp]:
  "lookback_seconds (add_ticks acc symbol ticks) = lookback_seconds acc"
  by (induction acc symbol ticks rule: add_ticks.induct) simp_all

lemma window_new [simp]: "window_of (new_accumulator 60) None = 60"
  by (simp add: window_of_def new_accumulator_def)

lemma window_add_ticks [simp]:
  "window_of (add_ticks acc symbol ticks) w = window_of acc w"
  by (simp add: window_of_def split: option.splits)

lemma tick_count_metrics [simp]: "of_tick_count (metrics acc symbol now recent) = length recent"
  by (simp add: metrics_def Let_def split: prod.splits)

lemma count_five:
  "map_option of_tick_count
     (compute_order_flow (add_ticks (new_accumulator 60) ''EURUSD'' five_ticks) 75 ''EURUSD'' None)
   = Some 3"
  apply (simp only: compute_order_flow_def buffer_five option.case window_add_ticks window_new)
  apply (simp add: Let_def recent_ticks_def five_ticks_def tick_of_def TickData_def)
  done

lemma count_late:
  "map_option of_tick_count
     (compute_order_flow (add_ticks (new_accumulator 60) ''EURUSD'' late_ticks) 100 ''EURUSD'' None)
   = Some 5"
  apply (simp only: compute_order_flow_def buffer_late option.case window_add_ticks window_new)
  apply (simp add: Let_def recent_ticks_def late_ticks_def tick_of_def TickData_def)
  done

lemma count_three:
  "compute_order_flow (add_ticks (new_accumulator 60) ''EURUSD'' three_ticks) 50 ''EURUSD'' None
   = None"
  apply (simp only: compute_order_flow_def buffer_three option.case)
  apply (simp add: three_ticks_def)
  done

lemma late_in_window:
  "length (filter (\<lambda>x. 100 - 60 \<le> td_time x \<and> td_time x \<le> 100)
     (map (tick_of ''EURUSD'') late_ticks)) = 1"
  by (simp add: late_ticks_def tick_of_def TickData_def)


lemma neutral_fields:
  "fr_bid_volume (neutral_response s t) = 0 \<and> fr_ask_volume (neutral_response s t) = 0
   \<and> fr_delta (neutral_response s t) = 0 \<and> fr_delta_sign (neutral_response s t) = neutral
   \<and> fr_imbalance_buy_pct (neutral_response s t) = 50
   \<and> fr_imbalance_sell_pct (neutral_response s t) = 50
   \<and> fr_large_orders (neutral_response s t) = []"
  by (simp add: neutral_response_def)



lemma buffer_of_five:
  "buffer_of (add_ticks (new_accumulator 60) ''EURUSD'' five_ticks) ''EURUSD''
     = map (tick_of ''EURUSD'') five_ticks"
  by (simp add: buffer_of_def buffer_five)




lemma after_fetch_quiet [simp]: "after_fetch (quiet_env acc) acc0 s = acc0"
  by (simp add: after_fetch_def quiet_env_def)

lemma quiet_env_simps [simp]:
  "fe_client (quiet_env acc)" "fst (fe_init (quiet_env acc))"
  "fe_symbol (quiet_env acc) = (True, ''EURUSD'', ''Symbol valid'')"
  "fe_accumulator (quiet_env acc) = Some acc" "fe_now (quiet_env acc) = 75"
  "fe_utcnow (quiet_env acc) = 75"
  by (simp_all add: quiet_env_def)



lemma filter_suffix_le:
  assumes "whole = dropped @ buf"
  shows "length (filter P buf) \<le> length (filter P whole)"
  using assms by simp

lemma add_ticks_count:
  assumes e: "buffer_of acc symbol = []"
    and c: "compute_order_flow (add_ticks acc symbol ticks) now symbol w = Some m"
  shows "of_tick_count m
     \<le> length (filter (\<lambda>x. now - of_int (window_of acc w) \<le> td_time x)
          (map (tick_of symbol) ticks))"
proof -
  from add_ticks_suffix [of acc symbol ticks] e obtain dropped where
    d: "map (tick_of symbol) ticks = dropped @ buffer_of (add_ticks acc symbol ticks) symbol"
    by auto
  have "of_tick_count m = length (recent_ticks (now - of_int (window_of acc w))
          (buffer_of (add_ticks acc symbol ticks) symbol))"
    using compute_tick_count(1) [OF c] by simp
  also have "\<dots> \<le> length (filter (\<lambda>x. now - of_int (window_of acc w) \<le> td_time x)
          (map (tick_of symbol) ticks))"
    unfolding recent_ticks_def by (rule filter_suffix_le [OF d])
  finally show ?thesis .
qed

lemma filter_upper:
  assumes "\<forall>x \<in> set xs. td_time x \<le> now"
  shows "filter (\<lambda>x. c \<le> td_time x) xs = filter (\<lambda>x. c \<le> td_time x \<and> td_time x \<le> now) xs"
  using assms by (induction xs) auto

text \<open>
  C9, as the code has it. Every insert appends the tick and then removes entries from
  the front only, each removed entry being older than the new tick's time minus the
  window; this holds for any timestamps, in order or not. When the buffer with the new
  tick is in time order, the eviction removes every entry older than that cutoff and the
  buffer stays in time order. After any sequence of inserts into an empty buffer, the
  \<open>tick_count\<close> of \<open>compute_order_flow\<close> never exceeds the number of inserted
  ticks stamped at or after \<open>now - window\<close>; when no inserted tick is stamped later
  than \<open>now\<close>, that is the number of ticks within \<open>[now - window, now]\<close>. The window
  filter of the code has no upper bound at \<open>now\<close>.
\<close>

theorem tick_buffer_eviction:
  "(\<exists>dropped.
       buffer_of acc symbol @ [TickData symbol bid ask volume time]
         = dropped @ buffer_of (add_tick acc clock symbol bid ask volume (Some time)) symbol
       \<and> (\<forall>d \<in> set dropped. td_time d < time - of_int (lookback_seconds acc)))
   \<and> (sorted (map td_time (buffer_of acc symbol @ [TickData symbol bid ask volume time])) \<longrightarrow>
        buffer_of (add_tick acc clock symbol bid ask volume (Some time)) symbol
          = filter (\<lambda>t. time - of_int (lookback_seconds acc) \<le> td_time t)
              (buffer_of acc symbol @ [TickData symbol bid ask volume time])
        \<and> sorted (map td_time
              (buffer_of (add_tick acc clock symbol bid ask volume (Some time)) symbol)))
   \<and> (buffer_of acc0 symbol = []
        \<and> compute_order_flow (add_ticks acc0 symbol ticks) now symbol w = Some m \<longrightarrow>
        of_tick_count m
          \<le> length (filter (\<lambda>x. now - of_int (window_of acc0 w) \<le> td_time x)
               (map (tick_of symbol) ticks))
        \<and> ((\<forall>x \<in> set (map (tick_of symbol) ticks). td_time x \<le> now) \<longrightarrow>
             of_tick_count m
               \<le> length (filter (\<lambda>x. now - of_int (window_of acc0 w) \<le> td_time x
                                      \<and> td_time x \<le> now)
                    (map (tick_of symbol) ticks))))"
proof (intro conjI impI)
  show "\<exists>dropped.
       buffer_of acc symbol @ [TickData symbol bid ask volume time]
         = dropped @ buffer_of (add_tick acc clock symbol bid ask volume (Some time)) symbol
       \<and> (\<forall>d \<in> set dropped. td_time d < time - of_int (lookback_seconds acc))"
    using evict_suffix [of "buffer_of acc symbol @ [TickData symbol bid ask volume time]"
        "time - of_int (lookback_seconds acc)"]
    by (simp add: buffer_add_tick)
next
  assume s: "sorted (map td_time (buffer_of acc symbol @ [TickData symbol bid ask volume time]))"
  show eq: "buffer_of (add_tick acc clock symbol bid ask volume (Some time)) symbol
          = filter (\<lambda>t. time - of_int (lookback_seconds acc) \<le> td_time t)
              (buffer_of acc symbol @ [TickData symbol bid ask volume time])"
    using evict_sorted_filter [OF s] by (simp add: buffer_add_tick)
  show "sorted (map td_time
              (buffer_of (add_tick acc clock symbol bid ask volume (Some time)) symbol))"
    unfolding eq using s by (rule sorted_filter)
next
  assume a: "buffer_of acc0 symbol = []
        \<and> compute_order_flow (add_ticks acc0 symbol ticks) now symbol w = Some m"
  then show le: "of_tick_count m
          \<le> length (filter (\<lambda>x. now - of_int (window_of acc0 w) \<le> td_time x)
               (map (tick_of symbol) ticks))"
    using add_ticks_count by blast
  assume "\<forall>x \<in> set (map (tick_of symbol) ticks). td_time x \<le> now"
  from filter_upper [OF this] le
  show "of_tick_count m
               \<le> length (filter (\<lambda>x. now - of_int (window_of acc0 w) \<le> td_time x
                                      \<and> td_time x \<le> now)
                    (map (tick_of symbol) ticks))"
    by simp
qed

lemma buffer_of_new [simp]: "buffer_of (new_accumulator n) s = []"
  by (simp add: buffer_of_def new_accumulator_def)

lemma lookback_new [simp]: "lookback_seconds (new_accumulator n) = n"
  by (simp add: new_accumulator_def)

lemma five_sorted:
  "sorted (map td_time (map (tick_of ''EURUSD'') five_ticks @ [TickData ''EURUSD'' 1 2 1 75]))"
  by (simp add: five_ticks_def tick_of_def TickData_def)

lemma five_filtered:
  "filter (\<lambda>t. 75 - of_int 60 \<le> td_time t)
       (map (tick_of ''EURUSD'') five_ticks @ [TickData ''EURUSD'' 1 2 1 75])
     = map (tick_of ''EURUSD'') [(1, 2, 1, 20), (1, 2, 1, 30), (1, 2, 1, 40), (1, 2, 1, 75)]"
  by (simp add: five_ticks_def tick_of_def TickData_def)

lemma five_before_now:
  "\<forall>x \<in> set (map (tick_of ''EURUSD'') five_ticks). td_time x \<le> 75"
  by (simp add: five_ticks_def tick_of_def TickData_def)

lemma five_in_window:
  "length (filter (\<lambda>x. 75 - of_int 60 \<le> td_time x \<and> td_time x \<le> 75)
      (map (tick_of ''EURUSD'') five_ticks)) = 3"
  by (simp add: five_ticks_def tick_of_def TickData_def)

theorem tick_buffer_eviction_witness:
  "sorted (map td_time
      (buffer_of (add_ticks (new_accumulator 60) ''EURUSD'' five_ticks) ''EURUSD''
         @ [TickData ''EURUSD'' 1 2 1 75]))
   \<and> buffer_of
        (add_tick (add_ticks (new_accumulator 60) ''EURUSD'' five_ticks) 75 ''EURUSD'' 1 2 1
           (Some 75)) ''EURUSD''
       = map (tick_of ''EURUSD'') [(1, 2, 1, 20), (1, 2, 1, 30), (1, 2, 1, 40), (1, 2, 1, 75)]
   \<and> buffer_of (new_accumulator 60) ''EURUSD'' = []
   \<and> map_option of_tick_count
        (compute_order_flow (add_ticks (new_accumulator 60) ''EURUSD'' five_ticks) 75
           ''EURUSD'' None) = Some 3
   \<and> (3::nat) \<le> length (filter (\<lambda>x. 75 - of_int 60 \<le> td_time x \<and> td_time x \<le> 75)
         (map (tick_of ''EURUSD'') five_ticks))"
proof -
  let ?acc = "add_ticks (new_accumulator 60) ''EURUSD'' five_ticks"
  from count_five obtain m where m: "compute_order_flow ?acc 75 ''EURUSD'' None = Some m"
    "of_tick_count m = 3" by auto
  note t = tick_buffer_eviction [of ?acc "''EURUSD''" 1 2 1 75 75 "new_accumulator 60"
      five_ticks 75 None m]
  have s: "sorted (map td_time (buffer_of ?acc ''EURUSD'' @ [TickData ''EURUSD'' 1 2 1 75]))"
    unfolding buffer_of_five by (rule five_sorted)
  from t s have "buffer_of (add_tick ?acc 75 ''EURUSD'' 1 2 1 (Some 75)) ''EURUSD''
      = filter (\<lambda>t. 75 - of_int (lookback_seconds ?acc) \<le> td_time t)
          (buffer_of ?acc ''EURUSD'' @ [TickData ''EURUSD'' 1 2 1 75])"
    by blast
  then have b: "buffer_of (add_tick ?acc 75 ''EURUSD'' 1 2 1 (Some 75)) ''EURUSD''
      = map (tick_of ''EURUSD'') [(1, 2, 1, 20), (1, 2, 1, 30), (1, 2, 1, 40), (1, 2, 1, 75)]"
    unfolding buffer_of_five using five_filtered by simp
  have pre: "buffer_of (new_accumulator 60) ''EURUSD'' = []
      \<and> compute_order_flow ?acc 75 ''EURUSD'' None = Some m"
    using m(1) by simp
  from t pre five_before_now
  have "of_tick_count m
      \<le> length (filter (\<lambda>x. 75 - of_int (window_of (new_accumulator 60) None) \<le> td_time x
                           \<and> td_time x \<le> 75)
           (map (tick_of ''EURUSD'') five_ticks))"
    by blast
  then have c: "(3::nat) \<le> length (filter (\<lambda>x. 75 - of_int 60 \<le> td_time x \<and> td_time x \<le> 75)
         (map (tick_of ''EURUSD'') five_ticks))"
    using m(2) by simp
  show ?thesis
    using s b c count_five by simp
qed

text \<open>
  The claim as stated fails for ticks stamped later than the clock: seven ticks
  stamped 0, 50, 110, 120, 130, 140, 150 are inserted in that order into a 60 second
  buffer, and the flow is computed at clock value 100. The buffer then holds the five
  ticks from 110 on, all of them pass the filter, and the tick count is 5, while only
  one inserted tick (the one at 50) is stamped within [40, 100].
\<close>

theorem tick_count_counts_late_ticks:
  "map_option of_tick_count
     (compute_order_flow (add_ticks (new_accumulator 60) ''EURUSD'' late_ticks) 100
        ''EURUSD'' None) = Some 5
   \<and> length (filter (\<lambda>x. 100 - 60 \<le> td_time x \<and> td_time x \<le> 100)
        (map (tick_of ''EURUSD'') late_ticks)) = 1"
  using count_late late_in_window by simp

subsection \<open>Webhook emitter\<close>

lemma emit_attempts_all_fail:
  assumes "\<forall>a \<in> set attempts. post_failed (server a)"
  shows "fst (emit_attempts server ev n attempts tr) = False"
    and "posts (snd (emit_attempts server ev n attempts tr)) = posts tr + length attempts"
    and "sleeps (snd (emit_attempts server ev n attempts tr))
           = sleeps tr @ map (\<lambda>a. 2 ^ a) (filter (\<lambda>a. int a < int n - 1) attempts)"
    and "last (logged (snd (emit_attempts server ev n attempts tr))) = Error_failed n ev"
  using assms
  by (induction attempts arbitrary: tr)
     (auto simp: post_failed_def failed_attempt_def split: post_result.splits)

lemma filter_before_last: "filter (\<lambda>a. int a < int n - 1) [0..<n] = [0..<n - 1]"
proof (cases n)
  case 0
  then show ?thesis by simp
next
  case (Suc k)
  have "filter (\<lambda>a. int a < int k) [0..<k] = [0..<k]"
    by (induction k) auto
  then show ?thesis using Suc by simp
qed

text \<open>
  The emitter on a webhook that never accepts. When the emitter is enabled and every POST fails (a status
  other than 200, a timeout or another exception), \<open>_emit_event\<close> makes
  \<open>retry_count\<close> attempts, waits \<open>2 ^ attempt\<close> seconds after every failed attempt
  but the last, logs the failure and returns \<open>False\<close>; no exception leaves it. With
  the default of three attempts the waits are 1 and 2 seconds: the 4 second wait of the
  series would come after the third attempt, where the code does not sleep.
\<close>

lemma emit_event_gives_up:
  assumes "em_enabled em" "em_webhook_url em = Some url" "url \<noteq> []"
    and "\<forall>a < retry_count. post_failed (server a)"
  shows "fst (emit_event em server ev retry_count) = False
     \<and> posts (snd (emit_event em server ev retry_count)) = retry_count
     \<and> sleeps (snd (emit_event em server ev retry_count)) = map (\<lambda>a. 2 ^ a) [0..<retry_count - 1]
     \<and> last (logged (snd (emit_event em server ev retry_count))) = Error_failed retry_count ev
     \<and> (retry_count = 3 \<longrightarrow> sleeps (snd (emit_event em server ev retry_count)) = [1, 2])"
proof -
  have f: "\<forall>a \<in> set [0..<retry_count]. post_failed (server a)"
    using assms(4) by simp
  have e: "emit_event em server ev retry_count
      = emit_attempts server ev retry_count [0..<retry_count] no_trace"
    using assms(1-3) by (simp add: emit_event_def)
  have s: "sleeps (snd (emit_event em server ev retry_count)) = map (\<lambda>a. 2 ^ a) [0..<retry_count - 1]"
    unfolding e emit_attempts_all_fail(3) [OF f] filter_before_last
    by (simp add: no_trace_def)
  have "map (\<lambda>a. 2 ^ a) [0..<3 - 1] = [1, 2::nat]"
    by (simp add: upt_rec)
  with s have "retry_count = 3 \<longrightarrow> sleeps (snd (emit_event em server ev retry_count)) = [1, 2]"
    by auto
  with s show ?thesis
    unfolding e using emit_attempts_all_fail(1,2,4) [OF f, of ev retry_count no_trace]
    by (simp add: no_trace_def)
qed

lemma hook_simps [simp]:
  "em_enabled hook" "em_webhook_url hook = Some ''http://localhost:3020/api/v1/order-events''"
  by (simp_all add: hook_def)

lemma all_500_failed: "\<forall>a < (3::nat). post_failed ((\<lambda>_. Status 500 ''Internal Server Error'') a)"
  by (simp add: post_failed_def)

lemma emit_event_gives_up_example:
  "em_enabled hook
   \<and> fst (emit_event hook (\<lambda>_. Status 500 ''Internal Server Error'') ''order_sent'' 3) = False
   \<and> posts (snd (emit_event hook (\<lambda>_. Status 500 ''Internal Server Error'') ''order_sent'' 3)) = 3
   \<and> sleeps (snd (emit_event hook (\<lambda>_. Status 500 ''Internal Server Error'') ''order_sent'' 3))
        = [1, 2]"
proof -
  have en: "em_enabled hook" by simp
  have url: "em_webhook_url hook = Some ''http://localhost:3020/api/v1/order-events''" by simp
  have ne: "''http://localhost:3020/api/v1/order-events'' \<noteq> []" by simp
  from emit_event_gives_up [OF en url ne all_500_failed, of "''order_sent''"] en
  show ?thesis by (simp add: upt_rec)
qed

lemma emit_500_run:
  "emit_event hook (\<lambda>_. Status 500 ''Internal Server Error'') ''order_sent'' 3
     = (False, \<lparr>posts = 3, sleeps = [1, 2],
          logged = [Warning_status 500 ''Internal Server Error'' 1 3,
                    Warning_status 500 ''Internal Server Error'' 2 3,
                    Warning_status 500 ''Internal Server Error'' 3 3,
                    Error_failed 3 ''order_sent'']\<rparr>)"
  by (simp add: emit_event_def upt_rec failed_attempt_def no_trace_def)

text \<open>
  C7 at its scenario: the endpoint answers 500 every time and \<open>retry_count\<close> has
  its default of three. The emitter returns \<open>False\<close> after three attempts
  separated by waits of 1 and 2 seconds only. The wait of 4 seconds, which the comment
  in the code announces (\<open>Exponential backoff: 1s, 2s, 4s\<close>), does not take place.
\<close>

theorem emit_event_waits_twice:
  "fst (emit_event hook (\<lambda>_. Status 500 ''Internal Server Error'') ''order_sent'' 3) = False
   \<and> sleeps (snd (emit_event hook (\<lambda>_. Status 500 ''Internal Server Error'') ''order_sent'' 3))
        = [1, 2]
   \<and> sleeps (snd (emit_event hook (\<lambda>_. Status 500 ''Internal Server Error'') ''order_sent'' 3))
        \<noteq> [1, 2, 4]"
  by (simp add: emit_500_run)

subsection \<open>The open-trade endpoint\<close>

lemma validate_stop_loss:
  "validate_fields body = Returned request \<Longrightarrow> rq_stop_loss request = mapped_stop_loss body"
  unfolding validate_fields_def mapped_stop_loss_def Let_def
  by (auto split: if_splits)

lemma endpoint_rejects:
  assumes "case rq_stop_loss request of None \<Rightarrow> True | Some s \<Rightarrow> s \<le> 0"
  shows "er_executor_calls (open_trade_endpoint client emitter_enabled request) = []"
    and "er_tasks (open_trade_endpoint client emitter_enabled request) = []"
    and "client = Some executor \<Longrightarrow>
         er_outcome (open_trade_endpoint client emitter_enabled request)
           = Raised (HTTPException 400 (Stop_loss_required (rq_stop_loss request)))"
    and "client = None \<Longrightarrow>
         er_outcome (open_trade_endpoint client emitter_enabled request)
           = Raised (HTTPException 500 (Text ''MT5 client not initialized''))"
  using assms by (auto simp: open_trade_endpoint_def split: option.splits)

text \<open>
  C10. A request body whose stop-loss, after the alternative field
  \<open>stop_loss_price\<close> has been mapped, is absent or not above zero never reaches the
  order executor, whatever the order kind and whatever the executor would do: the route
  raises, it makes no call to \<open>mt5_client.open_trade\<close> and starts no emitter task.
  Once startup has set the client, the error is a client-side one: the model's
  validation error (status 422) or the endpoint's own status 400 with the stop-loss
  message.
\<close>

theorem open_trade_requires_stop_loss:
  assumes "no_stop_loss body"
  shows "er_executor_calls (post_trades_open client emitter_enabled body) = []
     \<and> er_tasks (post_trades_open client emitter_enabled body) = []
     \<and> (\<exists>e. er_outcome (post_trades_open client emitter_enabled body) = Raised e)
     \<and> (\<forall>executor. client = Some executor \<longrightarrow>
           (\<exists>m. er_outcome (post_trades_open client emitter_enabled body)
                  = Raised (ValidationError m))
           \<or> er_outcome (post_trades_open client emitter_enabled body)
                = Raised (HTTPException 400 (Stop_loss_required (mapped_stop_loss body))))"
proof (cases "validate_fields body")
  case (Raised e)
  then have r: "post_trades_open client emitter_enabled body
      = \<lparr>er_outcome = Raised e, er_executor_calls = [], er_tasks = []\<rparr>"
    by (simp add: post_trades_open_def)
  from Raised obtain m where "e = ValidationError m"
    unfolding validate_fields_def Let_def by (auto split: if_splits)
  with r show ?thesis by auto
next
  case (Returned request)
  then have r: "post_trades_open client emitter_enabled body
      = open_trade_endpoint client emitter_enabled request"
    by (simp add: post_trades_open_def)
  have sl: "rq_stop_loss request = mapped_stop_loss body"
    using Returned by (rule validate_stop_loss)
  with assms have bad: "case rq_stop_loss request of None \<Rightarrow> True | Some s \<Rightarrow> s \<le> 0"
    by (simp add: no_stop_loss_def)
  have raised: "\<exists>e. er_outcome (open_trade_endpoint client emitter_enabled request) = Raised e"
    using endpoint_rejects(3,4) [OF bad, of client] by (cases client) auto
  show ?thesis
    unfolding r using endpoint_rejects(1,2) [OF bad] endpoint_rejects(3) [OF bad] raised sl
    by auto
qed

lemma naked_no_stop: "no_stop_loss naked_body"
  by (simp add: no_stop_loss_def mapped_stop_loss_def naked_body_def)

lemma zero_no_stop: "no_stop_loss zero_stop_limit_body"
  by (simp add: no_stop_loss_def mapped_stop_loss_def zero_stop_limit_body_def)

lemma naked_valid: "\<exists>request. validate_fields naked_body = Returned request"
  by (simp add: validate_fields_def naked_body_def Let_def)

lemma naked_run:
  "er_outcome (post_trades_open (Some always_fills) True naked_body)
     = Raised (HTTPException 400 (Stop_loss_required None))"
  by (simp add: post_trades_open_def validate_fields_def naked_body_def Let_def
      open_trade_endpoint_def)

lemma zero_run:
  "er_outcome (post_trades_open (Some always_fills) True zero_stop_limit_body)
     = Raised (HTTPException 400 (Stop_loss_required (Some 0)))"
  by (simp add: post_trades_open_def validate_fields_def zero_stop_limit_body_def Let_def
      open_trade_endpoint_def)

theorem open_trade_requires_stop_loss_witness:
  "no_stop_loss naked_body
   \<and> er_executor_calls (post_trades_open (Some always_fills) True naked_body) = []
   \<and> er_tasks (post_trades_open (Some always_fills) True naked_body) = []
   \<and> er_outcome (post_trades_open (Some always_fills) True naked_body)
        = Raised (HTTPException 400 (Stop_loss_required None))
   \<and> no_stop_loss zero_stop_limit_body
   \<and> er_executor_calls (post_trades_open (Some always_fills) True zero_stop_limit_body) = []
   \<and> er_outcome (post_trades_open (Some always_fills) True zero_stop_limit_body)
        = Raised (HTTPException 400 (Stop_loss_required (Some 0)))"
  using open_trade_requires_stop_loss [OF naked_no_stop, of "Some always_fills" True]
    open_trade_requires_stop_loss [OF zero_no_stop, of "Some always_fills" True]
    naked_no_stop zero_no_stop naked_run zero_run
  by simp

subsection \<open>Order executor: opening a trade\<close>

lemma call_with_two_arguments:
  "call_normalize_volume [PReal requested, PInfo info]
     = Raised (TypeError ''_normalize_volume() missing required positional argument'')"
  by (simp add: call_normalize_volume_def)

lemma success_of_failures [simp]:
  "map_of (failure msg) ''success'' = Some (PBool False)"
  "map_of (failure_details msg d) ''success'' = Some (PBool False)"
  "map_of (make_error_response c msg s dr k v) ''success'' = Some (PBool False)"
  by (simp_all add: failure_def failure_details_def make_error_response_def)

lemma order_kind_branch_early:
  "order_kind_branch order_kind direction entry_price tick symbol lot_size = Inl early \<Longrightarrow>
     map_of early ''success'' = Some (PBool False)"
  unfolding order_kind_branch_def Let_def
  by (auto split: if_splits option.splits)

lemma open_trade_body_unchanged:
  "snd (open_trade_body lib term symbol actual direction order_kind lot_size entry_price
          stop_loss take_profit strategy) = term"
  unfolding open_trade_body_def
  by (simp add: call_with_two_arguments Let_def split: option.splits sum.splits prod.splits)

lemma open_trade_body_returns_failure:
  "fst (open_trade_body lib term symbol actual direction order_kind lot_size entry_price
          stop_loss take_profit strategy) = Returned response \<Longrightarrow>
     map_of response ''success'' = Some (PBool False)"
  unfolding open_trade_body_def
  by (auto simp: call_with_two_arguments Let_def
      split: option.splits sum.splits prod.splits dest: order_kind_branch_early)

text \<open>
  Whatever the terminal and the request, \<open>open_trade\<close> reports a failure and leaves
  the terminal as it was: no order is ever sent. Every run that gets as far as the volume
  normalization raises \<open>TypeError\<close> there, and the handler of the \<open>try\<close> block
  turns it into the error response with the code -10011.
\<close>

lemma open_trade_never_succeeds:
  "map_of (fst (open_trade lib term request)) ''success'' = Some (PBool False)
   \<and> snd (open_trade lib term request) = term"
proof -
  obtain init_success init_msg where i: "t_initialized term = (init_success, init_msg)"
    by (cases "t_initialized term")
  obtain symbol_valid actual_symbol symbol_msg where
    v: "t_valid_symbol term (rd_symbol request) = (symbol_valid, actual_symbol, symbol_msg)"
    by (cases "t_valid_symbol term (rd_symbol request)")
  let ?body = "open_trade_body lib term actual_symbol actual_symbol (rd_direction request)
      (lower (case rd_order_kind request of None \<Rightarrow> ''market'' | Some k \<Rightarrow> k))
      (rd_lot_size request) (rd_entry_price request)
      (py_or (rd_stop_loss request) (rd_stop_loss_price request))
      (py_or (rd_take_profit request) (rd_take_profit_price request))
      (case rd_strategy request of None \<Rightarrow> ''unknown'' | Some s \<Rightarrow> s)"
  obtain out t where b: "?body = (out, t)" by (cases ?body)
  have t: "t = term" using open_trade_body_unchanged [of lib "term" actual_symbol] b
    by (metis snd_conv)
  show ?thesis
  proof (cases out)
    case (Returned response)
    with b have "map_of response ''success'' = Some (PBool False)"
      using open_trade_body_returns_failure by (metis fst_conv)
    with Returned b t i v show ?thesis
      by (simp add: open_trade_def Let_def)
  next
    case (Raised e)
    with b t i v show ?thesis
      by (simp add: open_trade_def Let_def)
  qed
qed

lemma live_simps [simp]:
  "t_initialized (live_terminal info replies) = (True, ''Already connected'')"
  "t_valid_symbol (live_terminal info replies) ''EURUSD'' = (True, ''EURUSD'', ''Symbol valid'')"
  "t_tick (live_terminal info replies) ''EURUSD''
     = Some \<lparr>tk_bid = 10999 / 10000, tk_ask = 11 / 10, tk_volume = Some 1, tk_time = 1700000000\<rparr>"
  "t_info (live_terminal info replies) ''EURUSD'' = Some info"
  "t_positions (live_terminal info replies) 7 = Some [position7]"
  "t_last_error (live_terminal info replies) = (1, ''Success'')"
  "t_replies (live_terminal info replies) = replies"
  "t_sent (live_terminal info replies) = []"
  by (simp_all add: live_terminal_def upper_def upper_char_def)

text \<open>
  C1 at its own scenario: a market buy of 0.10 lots on a symbol with min 0.01, max 50,
  step 0.01, without stops, against a terminal that accepts the request. The claim
  expects a success; the code returns the error response of the exception handler and
  sends nothing.
\<close>

theorem open_trade_naked_order_fails:
  "open_trade mt5_package (live_terminal eurusd [Some request_done]) naked_request
     = (make_error_response (- 10011)
          [Str ''Exception during open_trade: '',
           Exn (TypeError ''_normalize_volume() missing required positional argument'')]
          (PStr ''EURUSD'') (PStr ''buy'') (PStr ''market'') (PReal (1 / 10)),
        live_terminal eurusd [Some request_done])
   \<and> map_of (fst (open_trade mt5_package (live_terminal eurusd [Some request_done])
                 naked_request)) ''success'' = Some (PBool False)
   \<and> t_sent (snd (open_trade mt5_package (live_terminal eurusd [Some request_done])
                 naked_request)) = []"
proof -
  have "open_trade mt5_package (live_terminal eurusd [Some request_done]) naked_request
     = (make_error_response (- 10011)
          [Str ''Exception during open_trade: '',
           Exn (TypeError ''_normalize_volume() missing required positional argument'')]
          (PStr ''EURUSD'') (PStr ''buy'') (PStr ''market'') (PReal (1 / 10)),
        live_terminal eurusd [Some request_done])"
    by (simp add: open_trade_def open_trade_body_def naked_request_def Let_def
        order_kind_branch_def lower_literals call_with_two_arguments)
  then show ?thesis by simp
qed

subsection \<open>Order executor: partial close\<close>

lemma coarse_simps:
  "min_vol_of coarse_step = 5764607523034235 / 2 ^ 59" "max_vol_of coarse_step = 50"
  "step_of coarse_step = 3602879701896397 / 2 ^ 55"
  unfolding coarse_step_def min_vol_of_def max_vol_of_def step_of_def attr_or_def
    double_hundredth double_tenth
  by simp_all

lemma position7_volume: "ps_volume position7 = 3602879701896397 / 2 ^ 55"
  unfolding position7_def double_tenth by simp

lemma sixty_percent: "double (double (ps_volume position7 * 60) / 100) = 8646911284551352 / 2 ^ 57"
  unfolding position7_volume
  by (simp add: double_def ulp_def binade_def compute_floorlog py_round_def Let_def)

lemma normalize_sixty_percent:
  "normalize_volume (double (double (ps_volume position7 * 60) / 100)) coarse_step ''EURUSD''
     = (ps_volume position7, None)"
  unfolding sixty_percent normalize_volume_def coarse_simps position7_volume Let_def
  by (simp add: double_def ulp_def binade_def compute_floorlog py_round_def Let_def)

text \<open>
  Whatever the terminal, the ticket and the percentage, \<open>partial_close_trade\<close>
  reports a failure and sends nothing: it never places a partial order and never hands
  over to \<open>close_trade\<close>.
\<close>

lemma partial_close_never_sends:
  "snd (partial_close_trade lib term ticket volume_percent) = term
   \<and> map_of (fst (partial_close_trade lib term ticket volume_percent)) ''success''
       = Some (PBool False)"
  unfolding partial_close_trade_def partial_close_body_def
  by (simp add: call_with_two_arguments Let_def split: option.splits list.splits prod.splits)

text \<open>
  C2 at its own scenario: closing 60 percent of the 0.10 lot position 7 on a symbol
  with the step 0.1, where the normalized volume is 0.10, the full position. The claim
  expects the full close; the code raises \<open>TypeError\<close> at the normalization call,
  returns the failure of the exception handler and sends nothing.
\<close>

theorem partial_close_sixty_percent_fails:
  "partial_close_trade mt5_package (live_terminal coarse_step [Some request_done]) 7 60
     = (failure [Str ''Exception during partial_close_trade: '',
                 Exn (TypeError ''_normalize_volume() missing required positional argument'')],
        live_terminal coarse_step [Some request_done])
   \<and> t_sent (snd (partial_close_trade mt5_package
                     (live_terminal coarse_step [Some request_done]) 7 60)) = []
   \<and> normalize_volume (double (double (ps_volume position7 * 60) / 100)) coarse_step
         ''EURUSD''
        = (ps_volume position7, None)"
proof -
  have "partial_close_trade mt5_package (live_terminal coarse_step [Some request_done]) 7 60
     = (failure [Str ''Exception during partial_close_trade: '',
                 Exn (TypeError ''_normalize_volume() missing required positional argument'')],
        live_terminal coarse_step [Some request_done])"
    by (simp add: partial_close_trade_def partial_close_body_def Let_def position7_def
        call_with_two_arguments)
  then show ?thesis using normalize_sixty_percent by simp
qed

text \<open>The full close that the claim expects would send one order for 0.10 lots.\<close>

lemma close_trade_position7:
  "fst (close_trade mt5_package (live_terminal coarse_step [Some request_done]) 7)
     = [(''success'', PBool True)]
   \<and> map tq_volume (t_sent (snd (close_trade mt5_package
         (live_terminal coarse_step [Some request_done]) 7))) = [Volume (ps_volume position7)]"
  by (simp add: close_trade_def Let_def position7_def get_filling_modes_def coarse_step_def
      mt5_package_def all_filling_modes_def order_send_def request_done_def opposite_def)

subsection \<open>Order executor: the retry without stops\<close>

lemma order_send_reply:
  "t_replies term = r # rest \<Longrightarrow>
     order_send term req = (r, term\<lparr>t_replies := rest, t_sent := t_sent term @ [req]\<rparr>)"
  by (simp add: order_send_def)

lemma order_send_empty:
  "t_replies term = [] \<Longrightarrow>
     order_send term req = (None, term\<lparr>t_sent := t_sent term @ [req]\<rparr>)"
  by (simp add: order_send_def)

lemma order_send_sent: "t_sent (snd (order_send term req)) = t_sent term @ [req]"
  by (simp add: order_send_def split: list.splits)

lemma retry_sent:
  "t_sent (snd (retry_without_stops lib cx req term))
     = t_sent term @ [req\<lparr>tq_sl := Some 0, tq_tp := Some 0\<rparr>]"
  unfolding retry_without_stops_def Let_def
  using order_send_sent [of "term" "req\<lparr>tq_sl := Some 0, tq_tp := Some 0\<rparr>"]
  by (auto split: prod.splits option.splits)

lemma retry_done:
  assumes "t_replies term = Some rr # rest" "or_retcode rr = TRADE_RETCODE_DONE lib"
  shows "fst (retry_without_stops lib cx req term)
           = make_success_response (or_order rr) (cx_actual_symbol cx) (cx_normalized_volume cx)
               (cx_entry_price_used cx) (cx_direction cx) (cx_order_kind cx)"
    and "t_success_log (snd (retry_without_stops lib cx req term))
           = t_success_log term @
               [\<lparr>sl_ticket = or_order rr, sl_stop_loss = 0, sl_take_profit = 0,
                 sl_retry_without_stops = True\<rparr>]"
  using assms by (simp_all add: retry_without_stops_def Let_def order_send_reply)

lemma retry_rejected:
  assumes "t_replies term = Some rr # rest" "or_retcode rr \<noteq> TRADE_RETCODE_DONE lib"
  shows "fst (retry_without_stops lib cx req term)
           = make_error_response (or_retcode rr)
               [Str ''MT5 order_send failed after retry without stops: '',
                Str (comment_or (or_comment rr) ''Unknown error'')]
               (PStr (cx_actual_symbol cx)) (PStr (cx_direction cx))
               (PStr (cx_order_kind cx)) (PVolume (cx_normalized_volume cx))"
  using assms by (simp add: retry_without_stops_def Let_def order_send_reply)

lemma retry_no_result:
  assumes "t_replies term = [] \<or> (\<exists>rest. t_replies term = None # rest)"
  shows "fst (retry_without_stops lib cx req term)
           = make_error_response
               (if fst (t_last_error term) \<noteq> 0 then fst (t_last_error term) else - 10009)
               [Str ''OrderSend failed after retry without stops: '',
                Str (snd (t_last_error term)),
                Str '' (code: '', Dec (fst (t_last_error term)), Str '')'']
               (PStr (cx_actual_symbol cx)) (PStr (cx_direction cx))
               (PStr (cx_order_kind cx)) (PVolume (cx_normalized_volume cx))"
  using assms
  by (auto simp: retry_without_stops_def Let_def order_send_reply order_send_empty
      split: prod.splits)

lemma send_step_invalid_stops:
  assumes "cx_order_kind cx = ''market''" "t_replies term = Some r # rest"
    "or_retcode r = 10016" "TRADE_RETCODE_DONE lib \<noteq> 10016"
  shows "fst (send_step lib cx attempt modes_list modes_index st term)
           = Return_response (fst (retry_without_stops lib cx
               (build_trade_request cx st (modes_list ! modes_index))
               (term\<lparr>t_replies := rest,
                  t_sent := t_sent term @ [build_trade_request cx st (modes_list ! modes_index)]\<rparr>)))"
    and "snd (snd (send_step lib cx attempt modes_list modes_index st term))
           = snd (retry_without_stops lib cx
               (build_trade_request cx st (modes_list ! modes_index))
               (term\<lparr>t_replies := rest,
                  t_sent := t_sent term @ [build_trade_request cx st (modes_list ! modes_index)]\<rparr>))"
  using assms
  by (simp_all add: send_step_def Let_def order_send_reply split: prod.splits)

lemma modes_loop_invalid_stops:
  assumes a: "cx_order_kind cx = ''market''" "t_replies term = Some r # rest"
    "or_retcode r = 10016" "TRADE_RETCODE_DONE lib \<noteq> 10016"
    and i: "modes_index < length modes_list"
  shows "fst (modes_loop lib cx attempt modes_list modes_index st term)
           = Some (fst (retry_without_stops lib cx
               (build_trade_request cx st (modes_list ! modes_index))
               (term\<lparr>t_replies := rest,
                  t_sent := t_sent term @ [build_trade_request cx st (modes_list ! modes_index)]\<rparr>)))"
    and "snd (snd (modes_loop lib cx attempt modes_list modes_index st term))
           = snd (retry_without_stops lib cx
               (build_trade_request cx st (modes_list ! modes_index))
               (term\<lparr>t_replies := rest,
                  t_sent := t_sent term @ [build_trade_request cx st (modes_list ! modes_index)]\<rparr>))"
proof -
  obtain s st' term' where e: "send_step lib cx attempt modes_list modes_index st term = (s, st', term')"
    by (cases "send_step lib cx attempt modes_list modes_index st term")
  from send_step_invalid_stops [OF a, of attempt modes_list modes_index st] e
  have s: "s = Return_response (fst (retry_without_stops lib cx
               (build_trade_request cx st (modes_list ! modes_index))
               (term\<lparr>t_replies := rest,
                  t_sent := t_sent term @ [build_trade_request cx st (modes_list ! modes_index)]\<rparr>)))"
    and t: "term' = snd (retry_without_stops lib cx
               (build_trade_request cx st (modes_list ! modes_index))
               (term\<lparr>t_replies := rest,
                  t_sent := t_sent term @ [build_trade_request cx st (modes_list ! modes_index)]\<rparr>))"
    by simp_all
  have m: "modes_loop lib cx attempt modes_list modes_index st term
      = (Some (fst (retry_without_stops lib cx
               (build_trade_request cx st (modes_list ! modes_index))
               (term\<lparr>t_replies := rest,
                  t_sent := t_sent term @ [build_trade_request cx st (modes_list ! modes_index)]\<rparr>))),
         st', term')"
    by (subst modes_loop.simps) (simp add: i e s)
  show "fst (modes_loop lib cx attempt modes_list modes_index st term)
           = Some (fst (retry_without_stops lib cx
               (build_trade_request cx st (modes_list ! modes_index))
               (term\<lparr>t_replies := rest,
                  t_sent := t_sent term @ [build_trade_request cx st (modes_list ! modes_index)]\<rparr>)))"
    by (simp add: m)
  show "snd (snd (modes_loop lib cx attempt modes_list modes_index st term))
           = snd (retry_without_stops lib cx
               (build_trade_request cx st (modes_list ! modes_index))
               (term\<lparr>t_replies := rest,
                  t_sent := t_sent term @ [build_trade_request cx st (modes_list ! modes_index)]\<rparr>))"
    by (simp add: m t)
qed

lemma submit_orders_invalid_stops:
  assumes a: "cx_order_kind cx = ''market''" "t_replies term = Some r # rest"
    "or_retcode r = 10016" "TRADE_RETCODE_DONE lib \<noteq> 10016"
    and m: "cx_filling_modes_to_try cx = m # ms"
  shows "submit_orders lib cx sl tp term
           = retry_without_stops lib cx (build_trade_request cx (initial_state sl tp) m)
               (term\<lparr>t_replies := rest,
                  t_sent := t_sent term @ [build_trade_request cx (initial_state sl tp) m]\<rparr>)"
proof -
  have i: "0 < length (m # ms)" by simp
  obtain res st' term' where
    e: "modes_loop lib cx 0 (m # ms) 0 (initial_state sl tp) term = (res, st', term')"
    by (cases "modes_loop lib cx 0 (m # ms) 0 (initial_state sl tp) term")
  from modes_loop_invalid_stops [OF a i, of 0 "initial_state sl tp"] e
  have "res = Some (fst (retry_without_stops lib cx (build_trade_request cx (initial_state sl tp) m)
               (term\<lparr>t_replies := rest,
                  t_sent := t_sent term @ [build_trade_request cx (initial_state sl tp) m]\<rparr>)))"
    and "term' = snd (retry_without_stops lib cx (build_trade_request cx (initial_state sl tp) m)
               (term\<lparr>t_replies := rest,
                  t_sent := t_sent term @ [build_trade_request cx (initial_state sl tp) m]\<rparr>))"
    by simp_all
  then show ?thesis
    by (simp add: submit_orders_def Let_def m e)
qed

lemma success_keys:
  "map fst (make_success_response ticket symbol volume price direction order_kind)
     = [''success'', ''ticket'', ''symbol'', ''volume'', ''price'', ''direction'', ''order_kind'']"
  by (simp add: make_success_response_def)

text \<open>
  The submission code of \<open>open_trade\<close>, taken by itself. When the first
  submission of a market order is rejected with the return code 10016 (invalid stops),
  exactly one more request is sent: the same request with \<open>sl\<close> and \<open>tp\<close> set
  to zero. The code then returns in every case. If the retry is done, the result is the
  standard success response with the keys \<open>success\<close>, \<open>ticket\<close>, \<open>symbol\<close>,
  \<open>volume\<close>, \<open>price\<close>, \<open>direction\<close>, \<open>order_kind\<close>; that the retry took
  place is written to the trade log (\<open>retry_without_stops = True\<close>). If the retry is
  rejected, the failure reported carries the return code and comment of the retry; if the
  retry returns nothing, it carries the terminal's last error. No call of
  \<open>open_trade\<close> gets as far as this code (\<open>open_trade_never_succeeds\<close>).
\<close>

lemma invalid_stops_retry:
  assumes a: "cx_order_kind cx = ''market''" "t_replies term = Some r # rest"
    "or_retcode r = 10016" "TRADE_RETCODE_DONE lib \<noteq> 10016"
    and m: "cx_filling_modes_to_try cx = m # ms"
  shows
   "t_sent (snd (submit_orders lib cx sl tp term))
      = t_sent term @ [build_trade_request cx (initial_state sl tp) m,
                       (build_trade_request cx (initial_state sl tp) m)
                         \<lparr>tq_sl := Some 0, tq_tp := Some 0\<rparr>]
    \<and> (\<forall>rr rest'. rest = Some rr # rest' \<and> or_retcode rr = TRADE_RETCODE_DONE lib \<longrightarrow>
          fst (submit_orders lib cx sl tp term)
            = make_success_response (or_order rr) (cx_actual_symbol cx) (cx_normalized_volume cx)
                (cx_entry_price_used cx) (cx_direction cx) (cx_order_kind cx)
          \<and> map fst (fst (submit_orders lib cx sl tp term))
              = [''success'', ''ticket'', ''symbol'', ''volume'', ''price'', ''direction'',
                 ''order_kind'']
          \<and> t_success_log (snd (submit_orders lib cx sl tp term))
              = t_success_log term @
                  [\<lparr>sl_ticket = or_order rr, sl_stop_loss = 0, sl_take_profit = 0,
                    sl_retry_without_stops = True\<rparr>])
    \<and> (\<forall>rr rest'. rest = Some rr # rest' \<and> or_retcode rr \<noteq> TRADE_RETCODE_DONE lib \<longrightarrow>
          fst (submit_orders lib cx sl tp term)
            = make_error_response (or_retcode rr)
                [Str ''MT5 order_send failed after retry without stops: '',
                 Str (comment_or (or_comment rr) ''Unknown error'')]
                (PStr (cx_actual_symbol cx)) (PStr (cx_direction cx))
                (PStr (cx_order_kind cx)) (PVolume (cx_normalized_volume cx)))
    \<and> (rest = [] \<or> (\<exists>rest'. rest = None # rest') \<longrightarrow>
          fst (submit_orders lib cx sl tp term)
            = make_error_response
                (if fst (t_last_error term) \<noteq> 0 then fst (t_last_error term) else - 10009)
                [Str ''OrderSend failed after retry without stops: '',
                 Str (snd (t_last_error term)),
                 Str '' (code: '', Dec (fst (t_last_error term)), Str '')'']
                (PStr (cx_actual_symbol cx)) (PStr (cx_direction cx))
                (PStr (cx_order_kind cx)) (PVolume (cx_normalized_volume cx)))"
proof -
  let ?req = "build_trade_request cx (initial_state sl tp) m"
  let ?term1 = "term\<lparr>t_replies := rest, t_sent := t_sent term @ [?req]\<rparr>"
  have s: "submit_orders lib cx sl tp term = retry_without_stops lib cx ?req ?term1"
    by (rule submit_orders_invalid_stops [OF a m])
  have sent: "t_sent (snd (submit_orders lib cx sl tp term))
      = t_sent term @ [?req, ?req\<lparr>tq_sl := Some 0, tq_tp := Some 0\<rparr>]"
    unfolding s retry_sent by simp
  have ok: "\<And>rr rest'. rest = Some rr # rest' \<and> or_retcode rr = TRADE_RETCODE_DONE lib \<Longrightarrow>
          fst (submit_orders lib cx sl tp term)
            = make_success_response (or_order rr) (cx_actual_symbol cx) (cx_normalized_volume cx)
                (cx_entry_price_used cx) (cx_direction cx) (cx_order_kind cx)
          \<and> map fst (fst (submit_orders lib cx sl tp term))
              = [''success'', ''ticket'', ''symbol'', ''volume'', ''price'', ''direction'',
                 ''order_kind'']
          \<and> t_success_log (snd (submit_orders lib cx sl tp term))
              = t_success_log term @
                  [\<lparr>sl_ticket = or_order rr, sl_stop_loss = 0, sl_take_profit = 0,
                    sl_retry_without_stops = True\<rparr>]"
  proof -
    fix rr rest'
    assume h: "rest = Some rr # rest' \<and> or_retcode rr = TRADE_RETCODE_DONE lib"
    then have r1: "t_replies ?term1 = Some rr # rest'" by simp
    from h have r2: "or_retcode rr = TRADE_RETCODE_DONE lib" by simp
    show "fst (submit_orders lib cx sl tp term)
            = make_success_response (or_order rr) (cx_actual_symbol cx) (cx_normalized_volume cx)
                (cx_entry_price_used cx) (cx_direction cx) (cx_order_kind cx)
          \<and> map fst (fst (submit_orders lib cx sl tp term))
              = [''success'', ''ticket'', ''symbol'', ''volume'', ''price'', ''direction'',
                 ''order_kind'']
          \<and> t_success_log (snd (submit_orders lib cx sl tp term))
              = t_success_log term @
                  [\<lparr>sl_ticket = or_order rr, sl_stop_loss = 0, sl_take_profit = 0,
                    sl_retry_without_stops = True\<rparr>]"
      unfolding s retry_done [OF r1 r2] by (simp add: success_keys)
  qed
  have rejected: "\<And>rr rest'. rest = Some rr # rest' \<and> or_retcode rr \<noteq> TRADE_RETCODE_DONE lib \<Longrightarrow>
          fst (submit_orders lib cx sl tp term)
            = make_error_response (or_retcode rr)
                [Str ''MT5 order_send failed after retry without stops: '',
                 Str (comment_or (or_comment rr) ''Unknown error'')]
                (PStr (cx_actual_symbol cx)) (PStr (cx_direction cx))
                (PStr (cx_order_kind cx)) (PVolume (cx_normalized_volume cx))"
  proof -
    fix rr rest'
    assume h: "rest = Some rr # rest' \<and> or_retcode rr \<noteq> TRADE_RETCODE_DONE lib"
    then have r1: "t_replies ?term1 = Some rr # rest'" by simp
    from h have r2: "or_retcode rr \<noteq> TRADE_RETCODE_DONE lib" by simp
    show "fst (submit_orders lib cx sl tp term)
            = make_error_response (or_retcode rr)
                [Str ''MT5 order_send failed after retry without stops: '',
                 Str (comment_or (or_comment rr) ''Unknown error'')]
                (PStr (cx_actual_symbol cx)) (PStr (cx_direction cx))
                (PStr (cx_order_kind cx)) (PVolume (cx_normalized_volume cx))"
      unfolding s by (rule retry_rejected [OF r1 r2])
  qed
  have no_reply: "rest = [] \<or> (\<exists>rest'. rest = None # rest') \<Longrightarrow>
          fst (submit_orders lib cx sl tp term)
            = make_error_response
                (if fst (t_last_error term) \<noteq> 0 then fst (t_last_error term) else - 10009)
                [Str ''OrderSend failed after retry without stops: '',
                 Str (snd (t_last_error term)),
                 Str '' (code: '', Dec (fst (t_last_error term)), Str '')'']
                (PStr (cx_actual_symbol cx)) (PStr (cx_direction cx))
                (PStr (cx_order_kind cx)) (PVolume (cx_normalized_volume cx))"
  proof -
    assume "rest = [] \<or> (\<exists>rest'. rest = None # rest')"
    then have "t_replies ?term1 = [] \<or> (\<exists>rest'. t_replies ?term1 = None # rest')" by simp
    from retry_no_result [OF this, of lib cx ?req] show ?thesis
      unfolding s by simp
  qed
  show ?thesis
  proof (intro conjI allI impI)
    show "t_sent (snd (submit_orders lib cx sl tp term))
      = t_sent term @ [?req, ?req\<lparr>tq_sl := Some 0, tq_tp := Some 0\<rparr>]"
      by (rule sent)
  next
    fix rr rest'
    assume h: "rest = Some rr # rest' \<and> or_retcode rr = TRADE_RETCODE_DONE lib"
    show "fst (submit_orders lib cx sl tp term)
            = make_success_response (or_order rr) (cx_actual_symbol cx) (cx_normalized_volume cx)
                (cx_entry_price_used cx) (cx_direction cx) (cx_order_kind cx)"
      using ok [OF h] by (simp add: success_keys)
    show "map fst (fst (submit_orders lib cx sl tp term))
              = [''success'', ''ticket'', ''symbol'', ''volume'', ''price'', ''direction'',
                 ''order_kind'']"
      using ok [OF h] by (simp add: success_keys)
    show "t_success_log (snd (submit_orders lib cx sl tp term))
              = t_success_log term @
                  [\<lparr>sl_ticket = or_order rr, sl_stop_loss = 0, sl_take_profit = 0,
                    sl_retry_without_stops = True\<rparr>]"
      using ok [OF h] by (simp add: success_keys)
  next
    fix rr rest'
    assume h: "rest = Some rr # rest' \<and> or_retcode rr \<noteq> TRADE_RETCODE_DONE lib"
    show "fst (submit_orders lib cx sl tp term)
            = make_error_response (or_retcode rr)
                [Str ''MT5 order_send failed after retry without stops: '',
                 Str (comment_or (or_comment rr) ''Unknown error'')]
                (PStr (cx_actual_symbol cx)) (PStr (cx_direction cx))
                (PStr (cx_order_kind cx)) (PVolume (cx_normalized_volume cx))"
      using rejected [OF h] by simp
  next
    assume h: "rest = [] \<or> (\<exists>rest'. rest = None # rest')"
    show "fst (submit_orders lib cx sl tp term)
            = make_error_response
                (if fst (t_last_error term) \<noteq> 0 then fst (t_last_error term) else - 10009)
                [Str ''OrderSend failed after retry without stops: '',
                 Str (snd (t_last_error term)),
                 Str '' (code: '', Dec (fst (t_last_error term)), Str '')'']
                (PStr (cx_actual_symbol cx)) (PStr (cx_direction cx))
                (PStr (cx_order_kind cx)) (PVolume (cx_normalized_volume cx))"
      using no_reply [OF h] by simp
  qed
qed

text \<open>
  C6 at its scenario: a market buy with the stops 1.09 and 1.12, against a terminal that
  would reject the first request with 10016 and accept the second one. The claim expects
  one retry without stops and a success. The code raises \<open>TypeError\<close> at the
  volume normalization, before the submission: it returns the error response of the
  exception handler, sends no request at all, and the two replies of the terminal are
  never asked for.
\<close>

theorem open_trade_invalid_stops_not_retried:
  "open_trade mt5_package (live_terminal eurusd [Some invalid_stops, Some request_done])
       stops_request
     = (make_error_response (- 10011)
          [Str ''Exception during open_trade: '',
           Exn (TypeError ''_normalize_volume() missing required positional argument'')]
          (PStr ''EURUSD'') (PStr ''buy'') (PStr ''market'') (PReal (1 / 10)),
        live_terminal eurusd [Some invalid_stops, Some request_done])
   \<and> map_of (fst (open_trade mt5_package
         (live_terminal eurusd [Some invalid_stops, Some request_done]) stops_request))
         ''success'' = Some (PBool False)
   \<and> t_sent (snd (open_trade mt5_package
         (live_terminal eurusd [Some invalid_stops, Some request_done]) stops_request)) = []
   \<and> t_replies (snd (open_trade mt5_package
         (live_terminal eurusd [Some invalid_stops, Some request_done]) stops_request))
       = [Some invalid_stops, Some request_done]"
proof -
  have "open_trade mt5_package (live_terminal eurusd [Some invalid_stops, Some request_done])
       stops_request
     = (make_error_response (- 10011)
          [Str ''Exception during open_trade: '',
           Exn (TypeError ''_normalize_volume() missing required positional argument'')]
          (PStr ''EURUSD'') (PStr ''buy'') (PStr ''market'') (PReal (1 / 10)),
        live_terminal eurusd [Some invalid_stops, Some request_done])"
    by (simp add: open_trade_def open_trade_body_def stops_request_def Let_def
        order_kind_branch_def lower_literals call_with_two_arguments)
  then show ?thesis by simp
qed

subsection \<open>Cancelling a pending order\<close>

lemma cancel_order_not_bound: "''cancel_order'' \<notin> set MT5Client_names"
  by (simp add: MT5Client_names_def)

lemma cancel_order_endpoint_unbound:
  assumes "''cancel_order'' \<notin> set (ob_names ob)"
  shows "cancel_order_endpoint (Some ob) request
           = Raised (no_attribute (ob_class ob) ''cancel_order'')"
  using assms by (simp add: cancel_order_endpoint_def call_method_def Let_def)

lemma cancel_order_endpoint_propagates:
  assumes "''cancel_order'' \<in> set (ob_names ob)"
    and "\<And>ticket. ob_call ob ''cancel_order'' ticket = Raised e"
  shows "cancel_order_endpoint (Some ob) request = Raised e"
  using assms by (simp add: cancel_order_endpoint_def call_method_def Let_def)

lemma cancel_order_endpoint_not_found:
  assumes "''cancel_order'' \<in> set (ob_names ob)"
    and "\<And>ticket. ob_call ob ''cancel_order'' ticket
           = Returned \<lparr>cr_success = False, cr_ticket = None, cr_price = None,
               cr_error = Some ''Order 1001 not found'', cr_error_message = None\<rparr>"
  shows "cancel_order_endpoint (Some ob) request
           = Raised (HTTPException 404 (Text ''Order 1001 not found''))"
  using assms
  by (simp add: cancel_order_endpoint_def call_method_def Let_def lower_def lower_char_def)

text \<open>
  C3, evaluated on the code. The class \<open>MT5Client\<close> binds no name
  \<open>cancel_order\<close>. Whatever the bodies of its methods do, the endpoint called with
  the valid request of ticket 1001 therefore does not return a structured failure:
  the \<open>AttributeError\<close> of the failed lookup leaves it unhandled.
\<close>

theorem cancel_order_escapes_unhandled:
  "validate_ticket \<lparr>co_ticket = 1001, co_mt5_ticket = None\<rparr>
     = Returned \<lparr>co_ticket = 1001, co_mt5_ticket = None\<rparr>
   \<and> cancel_order_endpoint (Some (MT5Client methods))
         \<lparr>co_ticket = 1001, co_mt5_ticket = None\<rparr>
     = Raised (AttributeError
         ([CHR 0x27] @ ''MT5Client'' @ [CHR 0x27] @ '' object has no attribute ''
            @ [CHR 0x27] @ ''cancel_order'' @ [CHR 0x27]))"
  by (simp add: validate_ticket_def cancel_order_endpoint_def call_method_def Let_def
      MT5Client_def MT5Client_names_def no_attribute_def)
end
